theory Spec2Isabelle
  imports Main "HOL-Library.Sublist"
begin

section \<open>Path strings (os.path on POSIX)\<close>

text \<open>
  The service runs in its Linux container, so paths are POSIX paths and
  \<^verbatim>\<open>os.path\<close> is \<^verbatim>\<open>posixpath\<close>.  A path is a string; the functions
  below are the string functions the handlers call.
\<close>

definition endswith :: "string \<Rightarrow> string \<Rightarrow> bool" where
  "endswith s suf =
     (length suf \<le> length s \<and> drop (length s - length suf) s = suf)"

text \<open>\<^verbatim>\<open>p.split('/')\<close>: the pieces between the separators, never an empty list.\<close>

fun split_slash :: "string \<Rightarrow> string list" where
  "split_slash [] = [[]]"
| "split_slash (c # cs) =
     (if c = CHR ''/'' then [] # split_slash cs
      else (case split_slash cs of
              [] \<Rightarrow> [[c]]
            | x # xs \<Rightarrow> (c # x) # xs))"

text \<open>\<^verbatim>\<open>os.path.basename(p)\<close> is \<^verbatim>\<open>p[p.rfind('/') + 1:]\<close>.\<close>

definition basename :: "string \<Rightarrow> string" where
  "basename p = last (split_slash p)"

text \<open>
  \<^verbatim>\<open>os.path.join(a, b)\<close> with two arguments: an absolute \<open>b\<close> replaces
  \<open>a\<close>; otherwise the two are put together with exactly one separator.
\<close>

definition join :: "string \<Rightarrow> string \<Rightarrow> string" where
  "join a b =
     (if b \<noteq> [] \<and> hd b = CHR ''/'' then b
      else if a = [] \<or> last a = CHR ''/'' then a @ b
      else a @ ''/'' @ b)"

section \<open>The file system\<close>

text \<open>
  The durable store is a directory tree.  A directory lists its entries in
  the order \<^verbatim>\<open>os.listdir\<close> reports them; an entry is looked up by name
  with \<open>map_of\<close>.  Symbolic links, owners and time stamps are not modelled.
\<close>

datatype node = File string | Dir "(string \<times> node) list"

fun is_dir :: "node option \<Rightarrow> bool" where
  "is_dir (Some (Dir es)) = True"
| "is_dir _ = False"

text \<open>Descend from a node along a list of plain entry names.\<close>

fun lookup :: "node \<Rightarrow> string list \<Rightarrow> node option" where
  "lookup n [] = Some n"
| "lookup (File c) (x # xs) = None"
| "lookup (Dir es) (x # xs) =
     (case map_of es x of None \<Rightarrow> None | Some ch \<Rightarrow> lookup ch xs)"

text \<open>
  Path resolution as the kernel does it, one component at a time: \<open>cur\<close>
  is the canonical path (entry names from the root) reached so far, and it
  has to be a directory for the next component to be taken.  Empty
  components and \<^verbatim>\<open>.\<close> stay, \<^verbatim>\<open>..\<close> goes to the parent (the root is its
  own parent), a name goes down.  The last name need not exist: the result
  is the canonical path the whole path denotes.
\<close>

fun canon :: "node \<Rightarrow> string list \<Rightarrow> string list \<Rightarrow> string list option" where
  "canon fs cur [] = Some cur"
| "canon fs cur (c # cs) =
     (if is_dir (lookup fs cur) then
        (if c = [] \<or> c = ''.'' then canon fs cur cs
         else if c = ''..'' then canon fs (butlast cur) cs
         else canon fs (cur @ [c]) cs)
      else None)"

text \<open>
  Every path the handlers build is absolute; the working directory of the
  process is taken to be the root, so a relative path resolves from there.
  The empty path denotes nothing.
\<close>

definition realpath :: "node \<Rightarrow> string \<Rightarrow> string list option" where
  "realpath fs p = (if p = [] then None else canon fs [] (split_slash p))"

definition stat :: "node \<Rightarrow> string \<Rightarrow> node option" where
  "stat fs p = (case realpath fs p of None \<Rightarrow> None | Some cs \<Rightarrow> lookup fs cs)"

text \<open>\<^verbatim>\<open>os.path.exists\<close> and \<^verbatim>\<open>os.path.isdir\<close> never raise.\<close>

definition exists :: "node \<Rightarrow> string \<Rightarrow> bool" where
  "exists fs p = (stat fs p \<noteq> None)"

definition isdir :: "node \<Rightarrow> string \<Rightarrow> bool" where
  "isdir fs p = is_dir (stat fs p)"

text \<open>
  Where resolution stops, the component reached is either missing or a
  regular file used as a directory.
\<close>

fun missing_or_file :: "node \<Rightarrow> string list \<Rightarrow> string list \<Rightarrow> bool" where
  "missing_or_file fs cur [] = False"
| "missing_or_file fs cur (c # cs) =
     (case lookup fs cur of
        None \<Rightarrow> False
      | Some (File x) \<Rightarrow> True
      | Some (Dir es) \<Rightarrow>
          (if c = [] \<or> c = ''.'' then missing_or_file fs cur cs
           else if c = ''..'' then missing_or_file fs (butlast cur) cs
           else missing_or_file fs (cur @ [c]) cs))"

definition file_in_the_way :: "node \<Rightarrow> string \<Rightarrow> bool" where
  "file_in_the_way fs p = (p \<noteq> [] \<and> missing_or_file fs [] (split_slash p))"

text \<open>Replace or add one entry of a directory listing, keeping the order.\<close>

fun upd_entry :: "string \<Rightarrow> node \<Rightarrow> (string \<times> node) list \<Rightarrow> (string \<times> node) list" where
  "upd_entry k v [] = [(k, v)]"
| "upd_entry k v (e # es) =
     (if fst e = k then (k, v) # es else e # upd_entry k v es)"

text \<open>
  Put a node at a canonical path whose parent directory exists; \<open>None\<close>
  when the parent is missing or is a regular file.
\<close>

fun put :: "node \<Rightarrow> string list \<Rightarrow> node \<Rightarrow> node option" where
  "put n [] new = Some new"
| "put (File c) (x # xs) new = None"
| "put (Dir es) (x # xs) new =
     (if xs = [] then Some (Dir (upd_entry x new es))
      else (case map_of es x of
              None \<Rightarrow> None
            | Some ch \<Rightarrow>
                (case put ch xs new of
                   None \<Rightarrow> None
                 | Some ch' \<Rightarrow> Some (Dir (upd_entry x ch' es)))))"

text \<open>
  \<^verbatim>\<open>os.walk(p)\<close>, top-down: one triple (root, directory names, other
  names) for the directory itself, then the triples of each subdirectory in
  listing order.  Roots are built with \<open>join\<close>; errors are ignored, so a
  missing \<open>p\<close> yields nothing.
\<close>

fun walk :: "string \<Rightarrow> node \<Rightarrow> (string \<times> string list \<times> string list) list" where
  "walk root (File c) = []"
| "walk root (Dir es) =
     (root,
      map fst (filter (\<lambda>e. is_dir (Some (snd e))) es),
      map fst (filter (\<lambda>e. \<not> is_dir (Some (snd e))) es))
     # concat (map (\<lambda>e. walk (join root (fst e)) (snd e)) es)"

definition os_walk :: "node \<Rightarrow> string \<Rightarrow> (string \<times> string list \<times> string list) list" where
  "os_walk fs p = (case stat fs p of None \<Rightarrow> [] | Some n \<Rightarrow> walk p n)"

section \<open>Exceptions, requests and responses\<close>

text \<open>
  The exceptions the handlers can meet.  All of them are instances of
  \<^verbatim>\<open>Exception\<close>; only \<open>FileNotFoundError\<close> and \<open>CalledProcessError\<close> are
  caught by name.  \<open>OSError\<close> stands for any other error of the operating
  system (permission denied, no space left on device, ...), told apart by
  the description that comes with it.  \<open>UnicodeDecodeError\<close> is what
  \<^verbatim>\<open>subprocess.run\<close> raises when the captured output is not text.
\<close>

datatype exn =
    KeyError string
  | TypeError
  | BadRequest
  | FileNotFoundError
  | NotADirectoryError
  | IsADirectoryError
  | FileExistsError
  | SameFileError
  | OSError string
  | CalledProcessError int string
  | UnicodeDecodeError

text \<open>JSON values: the parsed request body and the bodies of the replies.\<close>

datatype json =
    JNull
  | JBool bool
  | JNum int
  | JStr string
  | JArr "json list"
  | JObj "(string \<times> json) list"

text \<open>
  What a handler hands back to Flask: a JSON body with a status, or a file
  sent with \<^verbatim>\<open>send_file\<close> (content, MIME type, \<^verbatim>\<open>as_attachment\<close>,
  \<^verbatim>\<open>download_name\<close>).
\<close>

datatype response =
    JsonResponse nat json
  | FileResponse string string bool "string option"

text \<open>A handler either returns a response or lets an exception escape.\<close>

datatype outcome = Returned response | Raised exn

text \<open>The replies of the handlers, under the names of the error kinds.\<close>

definition ToolUnavailable :: response where
  "ToolUnavailable =
     JsonResponse 500 (JObj [(''error'', JStr ''OpenSCAD executable not found'')])"

definition CompilationFailed :: "string \<Rightarrow> response" where
  "CompilationFailed stderr =
     JsonResponse 500 (JObj [(''error'', JStr ''OpenSCAD process failed''),
                             (''details'', JStr stderr)])"

definition OutputMissing :: response where
  "OutputMissing =
     JsonResponse 500 (JObj [(''error'', JStr ''Failed to generate STL file'')])"

definition UnexpectedError :: "string \<Rightarrow> response" where
  "UnexpectedError msg =
     JsonResponse 500 (JObj [(''error'', JStr (''Unexpected error: '' @ msg))])"

definition StlPath :: "string \<Rightarrow> response" where
  "StlPath stl_basename =
     JsonResponse 200 (JObj [(''stlPath'', JStr (''/api/view3d?file='' @ stl_basename))])"

definition InvalidFileParameter :: response where
  "InvalidFileParameter =
     JsonResponse 400 (JObj [(''error'', JStr ''Invalid file parameter'')])"

definition NotFound :: response where
  "NotFound = JsonResponse 404 (JObj [(''error'', JStr ''File not found'')])"

definition ServeError :: "string \<Rightarrow> response" where
  "ServeError msg =
     JsonResponse 500 (JObj [(''error'', JStr (''Error serving STL file: '' @ msg))])"

definition NoFilePart :: response where
  "NoFilePart = JsonResponse 400 (JObj [(''error'', JStr ''No file part in the request'')])"

definition NoFileSelected :: response where
  "NoFileSelected = JsonResponse 400 (JObj [(''error'', JStr ''No file selected'')])"

definition OnlyScadAllowed :: response where
  "OnlyScadAllowed =
     JsonResponse 400 (JObj [(''error'', JStr ''Only .scad files are allowed'')])"

definition UploadError :: "string \<Rightarrow> response" where
  "UploadError msg =
     JsonResponse 500 (JObj [(''error'', JStr (''Error uploading library file: '' @ msg))])"

definition UploadOk :: "string \<Rightarrow> response" where
  "UploadOk filename =
     JsonResponse 200
       (JObj [(''success'', JBool True),
              (''message'', JStr (''Library file '' @ filename @ '' uploaded successfully''))])"

text \<open>The error kind \<open>InvalidInput\<close>: a reply with status 400.\<close>

fun InvalidInput :: "response \<Rightarrow> bool" where
  "InvalidInput (JsonResponse st b) = (st = 400)"
| "InvalidInput (FileResponse c m a d) = False"

section \<open>The environment of a request\<close>

text \<open>
  What the compiler process did: the executable was not found; it could not
  be started for another reason (the description of the error, for instance
  permission denied); it ran and exited with a return code, leaving the
  file system behind, but what it printed cannot be decoded as text; or it
  ran and exited with a return code, its captured standard output and
  standard error, leaving the file system behind.
\<close>

datatype proc_result =
    NoSuchExecutable
  | SpawnFailed string
  | Undecodable int node
  | Exited int string string node

text \<open>The system calls the operating system may refuse.\<close>

datatype sysop =
    SysMakedirs string
  | SysListdir string
  | SysRead string
  | SysOpenW string
  | SysWrite string

text \<open>
  Everything a handler takes from outside: the text of the fresh
  \<^verbatim>\<open>uuid.uuid4()\<close>; the system calls that fail for a reason the tree
  does not show (disk full, permission denied) with the description of the
  error; the compiler, a black box from the file system and the argument
  list to what the process did; and \<^verbatim>\<open>str(e)\<close>, the text Python and its
  libraries give for an exception (with error number and file name as they
  see fit), which the handlers only paste into a reply.
\<close>

record env =
  uuid4 :: string
  os_fault :: "sysop \<Rightarrow> string option"
  openscad :: "node \<Rightarrow> string list \<Rightarrow> proc_result"
  str_exn :: "exn \<Rightarrow> string"

text \<open>The state of the service: the disk and the dictionary \<^verbatim>\<open>stl_cache\<close>.\<close>

record world =
  fs :: node
  stl_cache :: "string \<rightharpoonup> string"

definition OPENSCAD_PATH :: string where
  "OPENSCAD_PATH = ''/usr/local/bin/openscad''"

text \<open>\<^verbatim>\<open>tempfile.gettempdir()\<close> is \<^verbatim>\<open>/tmp\<close> in the container.\<close>

definition MODELS_DIR :: string where
  "MODELS_DIR = join ''/tmp'' ''openscad_models''"

text \<open>The directory of \<^verbatim>\<open>app.py\<close> in the container is \<^verbatim>\<open>/app\<close>.\<close>

definition LIBRARIES_DIR :: string where
  "LIBRARIES_DIR = join ''/app'' ''libraries''"

section \<open>System calls\<close>

text \<open>
  The exception of a system call on a path that does not lead to an entry:
  \<open>NotADirectoryError\<close> when a regular file stands where a directory is
  needed, \<open>FileNotFoundError\<close> otherwise.
\<close>

definition no_such :: "node \<Rightarrow> string \<Rightarrow> exn" where
  "no_such t p = (if file_in_the_way t p then NotADirectoryError else FileNotFoundError)"

text \<open>
  A call the operating system refuses raises \<open>OSError\<close> with the text
  the environment gives and changes nothing.
\<close>

definition guard :: "env \<Rightarrow> sysop \<Rightarrow> exn + 'a \<Rightarrow> exn + 'a" where
  "guard e op k = (case os_fault e op of Some m \<Rightarrow> Inl (OSError m) | None \<Rightarrow> k)"

text \<open>
  \<^verbatim>\<open>os.makedirs(p, exist_ok=True)\<close>: walk the path as \<open>canon\<close> does and
  create every directory that is missing on the way.  It fails when a
  component, or the path itself, is a regular file.
\<close>

fun mkdirs :: "node \<Rightarrow> string list \<Rightarrow> string list \<Rightarrow> exn + node" where
  "mkdirs t cur [] = (if is_dir (lookup t cur) then Inr t else Inl FileExistsError)"
| "mkdirs t cur (c # cs) =
     (if is_dir (lookup t cur) then
        (if c = [] \<or> c = ''.'' then mkdirs t cur cs
         else if c = ''..'' then mkdirs t (butlast cur) cs
         else (case lookup t (cur @ [c]) of
                 Some n \<Rightarrow> mkdirs t (cur @ [c]) cs
               | None \<Rightarrow>
                   (case put t (cur @ [c]) (Dir []) of
                      None \<Rightarrow> Inl FileNotFoundError
                    | Some t' \<Rightarrow> mkdirs t' (cur @ [c]) cs)))
      else Inl NotADirectoryError)"

definition os_makedirs :: "env \<Rightarrow> node \<Rightarrow> string \<Rightarrow> exn + node" where
  "os_makedirs e t p =
     guard e (SysMakedirs p)
       (if p = [] then Inl FileNotFoundError else mkdirs t [] (split_slash p))"

definition os_listdir :: "env \<Rightarrow> node \<Rightarrow> string \<Rightarrow> exn + string list" where
  "os_listdir e t p =
     guard e (SysListdir p)
       (case stat t p of
          None \<Rightarrow> Inl (no_such t p)
        | Some (File c) \<Rightarrow> Inl NotADirectoryError
        | Some (Dir es) \<Rightarrow> Inr (map fst es))"

text \<open>Open a file and read all of it.\<close>

definition read_file :: "env \<Rightarrow> node \<Rightarrow> string \<Rightarrow> exn + string" where
  "read_file e t p =
     guard e (SysRead p)
       (case stat t p of
          None \<Rightarrow> Inl (no_such t p)
        | Some (Dir es) \<Rightarrow> Inl IsADirectoryError
        | Some (File c) \<Rightarrow> Inr c)"

text \<open>
  \<^verbatim>\<open>open(p, 'w')\<close>: the file is created, or truncated, at once.  The
  handle is the canonical path of the file.
\<close>

definition open_w :: "env \<Rightarrow> node \<Rightarrow> string \<Rightarrow> exn + (string list \<times> node)" where
  "open_w e t p =
     guard e (SysOpenW p)
       (case realpath t p of
          None \<Rightarrow> Inl (no_such t p)
        | Some cs \<Rightarrow>
            (if is_dir (lookup t cs) then Inl IsADirectoryError
             else (case put t cs (File []) of
                     None \<Rightarrow> Inl FileNotFoundError
                   | Some t' \<Rightarrow> Inr (cs, t'))))"

text \<open>Write the whole content through an open handle.\<close>

definition fwrite :: "env \<Rightarrow> string \<Rightarrow> string list \<Rightarrow> node \<Rightarrow> string \<Rightarrow> exn + node" where
  "fwrite e p h t s =
     guard e (SysWrite p)
       (case put t h (File s) of
          None \<Rightarrow> Inl FileNotFoundError
        | Some t' \<Rightarrow> Inr t')"

text \<open>
  Open for writing, write, close: \<^verbatim>\<open>file.save(dst)\<close> of an upload, and
  the second half of a copy.  A write that fails leaves the empty file.
\<close>

definition write_file :: "env \<Rightarrow> node \<Rightarrow> string \<Rightarrow> string \<Rightarrow> (exn + unit) \<times> node" where
  "write_file e t p s =
     (case open_w e t p of
        Inl x \<Rightarrow> (Inl x, t)
      | Inr (h, t1) \<Rightarrow>
          (case fwrite e p h t1 s of
             Inl x \<Rightarrow> (Inl x, t1)
           | Inr t2 \<Rightarrow> (Inr (), t2)))"

text \<open>
  \<^verbatim>\<open>shutil.copy2(src, dst)\<close>: a directory as destination takes the file
  under the source's name; copying a file onto itself is refused; then the
  source is read and written to the destination.
\<close>

definition copy2 :: "env \<Rightarrow> node \<Rightarrow> string \<Rightarrow> string \<Rightarrow> (exn + unit) \<times> node" where
  "copy2 e t src dst =
     (let dst' = (if isdir t dst then join dst (basename src) else dst) in
      if exists t src \<and> exists t dst' \<and> realpath t src = realpath t dst'
      then (Inl SameFileError, t)
      else (case read_file e t src of
              Inl x \<Rightarrow> (Inl x, t)
            | Inr c \<Rightarrow> write_file e t dst' c))"

text \<open>\<^verbatim>\<open>os.path.getsize\<close>; a directory has the size of one block.\<close>

definition getsize :: "node \<Rightarrow> string \<Rightarrow> exn + nat" where
  "getsize t p =
     (case stat t p of
        None \<Rightarrow> Inl (no_such t p)
      | Some (File c) \<Rightarrow> Inr (length c)
      | Some (Dir es) \<Rightarrow> Inr 4096)"

text \<open>Flask's \<^verbatim>\<open>send_file\<close> of a path.\<close>

definition send_file ::
  "env \<Rightarrow> node \<Rightarrow> string \<Rightarrow> string \<Rightarrow> bool \<Rightarrow> string option \<Rightarrow> exn + response" where
  "send_file e t p mimetype as_attachment download_name =
     (case read_file e t p of
        Inl x \<Rightarrow> Inl x
      | Inr c \<Rightarrow> Inr (FileResponse c mimetype as_attachment download_name))"

text \<open>
  \<^verbatim>\<open>subprocess.run([...], check=True, capture_output=True, text=True)\<close>:
  the captured standard output when the process exits with 0, otherwise an
  exception.  The output is decoded before the return code is looked at,
  so output that is not text raises whatever the return code is.
\<close>

definition subprocess_run :: "env \<Rightarrow> node \<Rightarrow> string list \<Rightarrow> (exn + string) \<times> node" where
  "subprocess_run e t args =
     (case openscad e t args of
        NoSuchExecutable \<Rightarrow> (Inl FileNotFoundError, t)
      | SpawnFailed m \<Rightarrow> (Inl (OSError m), t)
      | Undecodable rc t' \<Rightarrow> (Inl UnicodeDecodeError, t')
      | Exited rc out err t' \<Rightarrow>
          (if rc \<noteq> 0 then (Inl (CalledProcessError rc err), t')
           else (Inr out, t')))"

section \<open>The handlers\<close>

text \<open>
  \<^verbatim>\<open>data = request.get_json(); scad_code = data['scadCode']\<close>.  The body
  is \<open>None\<close> when Flask cannot parse it as JSON: then \<^verbatim>\<open>get_json\<close>
  raises.  Subscripting with a string works on a dictionary that has the
  key and raises on everything else.
\<close>

fun getitem :: "json \<Rightarrow> string \<Rightarrow> exn + json" where
  "getitem (JObj kv) k = (case map_of kv k of None \<Rightarrow> Inl (KeyError k) | Some v \<Rightarrow> Inr v)"
| "getitem j k = Inl TypeError"

definition get_scad_code :: "json option \<Rightarrow> exn + json" where
  "get_scad_code body =
     (case body of None \<Rightarrow> Inl BadRequest | Some data \<Rightarrow> getitem data ''scadCode'')"

text \<open>
  The loop of lines 83 to 88 (and 154 to 159): every entry of the library
  directory whose name ends in \<^verbatim>\<open>.scad\<close> is copied into the model
  directory.  The first copy that raises ends the loop; the copies made
  before it stay.
\<close>

fun copy_libraries :: "env \<Rightarrow> node \<Rightarrow> string \<Rightarrow> string list \<Rightarrow> (exn + unit) \<times> node" where
  "copy_libraries e t model_dir [] = (Inr (), t)"
| "copy_libraries e t model_dir (lib_file # rest) =
     (if endswith lib_file ''.scad'' then
        (case copy2 e t (join LIBRARIES_DIR lib_file) (join model_dir lib_file) of
           (Inl x, t1) \<Rightarrow> (Inl x, t1)
         | (Inr u, t1) \<Rightarrow> copy_libraries e t1 model_dir rest)
      else copy_libraries e t model_dir rest)"

text \<open>
  The names of lines 75 to 80 (and 146 to 151): the model directory and the
  two files in it, and the argument list of the compiler.
\<close>

definition model_dir :: "env \<Rightarrow> string" where
  "model_dir e = join MODELS_DIR (uuid4 e)"

definition scad_file_path :: "env \<Rightarrow> string" where
  "scad_file_path e = join (model_dir e) (uuid4 e @ ''.scad'')"

definition stl_file_path :: "env \<Rightarrow> string" where
  "stl_file_path e = join (model_dir e) (uuid4 e @ ''.stl'')"

definition openscad_args :: "env \<Rightarrow> string list" where
  "openscad_args e = [OPENSCAD_PATH, ''-o'', stl_file_path e, scad_file_path e]"

text \<open>
  Lines 74 to 92 of \<^verbatim>\<open>RenderScad.post\<close>, the same text as lines 145 to
  163 of \<^verbatim>\<open>GetStl.post\<close>: make the model directory, copy the libraries,
  write the source file.  None of it is inside a \<^verbatim>\<open>try\<close>.  Writing a
  value that is not a string raises \<open>TypeError\<close> after the file was
  opened.
\<close>

definition create_workspace :: "env \<Rightarrow> node \<Rightarrow> json \<Rightarrow> (exn + unit) \<times> node" where
  "create_workspace e t scad_code =
     (case os_makedirs e t (model_dir e) of
        Inl x \<Rightarrow> (Inl x, t)
      | Inr t1 \<Rightarrow>
     (case os_listdir e t1 LIBRARIES_DIR of
        Inl x \<Rightarrow> (Inl x, t1)
      | Inr names \<Rightarrow>
     (case copy_libraries e t1 (model_dir e) names of
        (Inl x, t2) \<Rightarrow> (Inl x, t2)
      | (Inr u, t2) \<Rightarrow>
     (case open_w e t2 (scad_file_path e) of
        Inl x \<Rightarrow> (Inl x, t2)
      | Inr (h, t3) \<Rightarrow>
     (case scad_code of
        JStr s \<Rightarrow>
          (case fwrite e (scad_file_path e) h t3 s of
             Inl x \<Rightarrow> (Inl x, t3)
           | Inr t4 \<Rightarrow> (Inr (), t4))
      | _ \<Rightarrow> (Inl TypeError, t3))))))"

text \<open>The \<^verbatim>\<open>except\<close> clauses of both render handlers, in their order.\<close>

fun render_except :: "env \<Rightarrow> exn \<Rightarrow> response" where
  "render_except e FileNotFoundError = ToolUnavailable"
| "render_except e (CalledProcessError rc err) = CompilationFailed err"
| "render_except e x = UnexpectedError (str_exn e x)"

text \<open>
  \<^verbatim>\<open>RenderScad.post\<close>.  Inside the \<^verbatim>\<open>try\<close>, after the compiler has
  exited with 0, line 107 stores the path in \<^verbatim>\<open>stl_cache\<close> and only then
  line 110 looks whether the file is there.
\<close>

definition RenderScad_post :: "env \<Rightarrow> json option \<Rightarrow> world \<Rightarrow> outcome \<times> world" where
  "RenderScad_post e body w =
     (case get_scad_code body of
        Inl x \<Rightarrow> (Raised x, w)
      | Inr scad_code \<Rightarrow>
          (case create_workspace e (fs w) scad_code of
             (Inl x, t1) \<Rightarrow> (Raised x, w\<lparr>fs := t1\<rparr>)
           | (Inr u, t1) \<Rightarrow>
               (case subprocess_run e t1 (openscad_args e) of
                  (Inl x, t2) \<Rightarrow> (Returned (render_except e x), w\<lparr>fs := t2\<rparr>)
                | (Inr out, t2) \<Rightarrow>
                    (if \<not> exists t2 (stl_file_path e)
                     then (Returned OutputMissing,
                           \<lparr>fs = t2,
                            stl_cache = (stl_cache w)(basename (stl_file_path e) \<mapsto> stl_file_path e)\<rparr>)
                     else (Returned (StlPath (basename (stl_file_path e))),
                           \<lparr>fs = t2,
                            stl_cache = (stl_cache w)(basename (stl_file_path e) \<mapsto> stl_file_path e)\<rparr>)))))"

text \<open>
  \<^verbatim>\<open>GetStl.post\<close>: the same steps, without any use of \<^verbatim>\<open>stl_cache\<close>;
  the file is sent after the \<^verbatim>\<open>try\<close>.
\<close>

definition GetStl_post :: "env \<Rightarrow> json option \<Rightarrow> world \<Rightarrow> outcome \<times> world" where
  "GetStl_post e body w =
     (case get_scad_code body of
        Inl x \<Rightarrow> (Raised x, w)
      | Inr scad_code \<Rightarrow>
          (case create_workspace e (fs w) scad_code of
             (Inl x, t1) \<Rightarrow> (Raised x, w\<lparr>fs := t1\<rparr>)
           | (Inr u, t1) \<Rightarrow>
               (case subprocess_run e t1 (openscad_args e) of
                  (Inl x, t2) \<Rightarrow> (Returned (render_except e x), w\<lparr>fs := t2\<rparr>)
                | (Inr out, t2) \<Rightarrow>
                    (if \<not> exists t2 (stl_file_path e)
                     then (Returned OutputMissing, w\<lparr>fs := t2\<rparr>)
                     else (case send_file e t2 (stl_file_path e) ''application/octet-stream''
                                  True (Some ''model.stl'') of
                             Inl x \<Rightarrow> (Raised x, w\<lparr>fs := t2\<rparr>)
                           | Inr r \<Rightarrow> (Returned r, w\<lparr>fs := t2\<rparr>))))))"

text \<open>
  Lines 211 to 225 of \<^verbatim>\<open>View3D.get\<close>: the path from the cache, or of
  the first directory of the walk that lists the name among its files, or
  the name joined to the models directory.
\<close>

definition locate_stl :: "world \<Rightarrow> string \<Rightarrow> string" where
  "locate_stl w filename =
     (case stl_cache w filename of
        Some p \<Rightarrow> p
      | None \<Rightarrow>
          (case find (\<lambda>(root, dirs, files). filename \<in> set files)
                     (os_walk (fs w) MODELS_DIR) of
             Some (root, dirs, files) \<Rightarrow> join root filename
           | None \<Rightarrow> join MODELS_DIR filename))"

text \<open>
  \<^verbatim>\<open>View3D.get\<close>; \<open>file\<close> is \<^verbatim>\<open>request.args.get('file')\<close>.  The
  listing of directories before the 404 only writes to the log.
\<close>

definition View3D_get :: "env \<Rightarrow> string option \<Rightarrow> world \<Rightarrow> outcome \<times> world" where
  "View3D_get e file w =
     (case file of
        None \<Rightarrow> (Returned InvalidFileParameter, w)
      | Some filename \<Rightarrow>
          (if filename = [] \<or> \<not> endswith filename ''.stl''
           then (Returned InvalidFileParameter, w)
           else if \<not> exists (fs w) (locate_stl w filename) then (Returned NotFound, w)
           else (case getsize (fs w) (locate_stl w filename) of
                   Inl x \<Rightarrow> (Returned (ServeError (str_exn e x)), w)
                 | Inr file_size \<Rightarrow>
                     (case send_file e (fs w) (locate_stl w filename) ''model/stl'' False None of
                        Inl x \<Rightarrow> (Returned (ServeError (str_exn e x)), w)
                      | Inr r \<Rightarrow> (Returned r, w)))))"

text \<open>
  \<^verbatim>\<open>UploadLibrary.post\<close>; \<open>file\<close> is the part \<^verbatim>\<open>request.files['file']\<close>
  with its file name and content, \<open>None\<close> when the request has no such
  part.
\<close>

definition UploadLibrary_post ::
  "env \<Rightarrow> (string \<times> string) option \<Rightarrow> world \<Rightarrow> outcome \<times> world" where
  "UploadLibrary_post e file w =
     (case file of
        None \<Rightarrow> (Returned NoFilePart, w)
      | Some (filename, content) \<Rightarrow>
          (if filename = [] then (Returned NoFileSelected, w)
           else if \<not> endswith filename ''.scad'' then (Returned OnlyScadAllowed, w)
           else (case write_file e (fs w) (join LIBRARIES_DIR filename) content of
                   (Inl x, t1) \<Rightarrow> (Returned (UploadError (str_exn e x)), w\<lparr>fs := t1\<rparr>)
                 | (Inr u, t1) \<Rightarrow> (Returned (UploadOk filename), w\<lparr>fs := t1\<rparr>))))"

section \<open>Well-formed trees and example states\<close>

text \<open>
  An entry name is not empty, is neither \<^verbatim>\<open>.\<close> nor \<^verbatim>\<open>..\<close> and has no
  separator; the names of one directory are distinct.
\<close>

definition valid_name :: "string \<Rightarrow> bool" where
  "valid_name n = (n \<noteq> [] \<and> n \<noteq> ''.'' \<and> n \<noteq> ''..'' \<and> CHR ''/'' \<notin> set n)"

fun wf_node :: "node \<Rightarrow> bool" where
  "wf_node (File c) = True"
| "wf_node (Dir es) =
     (distinct (map fst es) \<and> (\<forall>e \<in> set es. valid_name (fst e) \<and> wf_node (snd e)))"

text \<open>
  A disk after start-up: the models directory and the library pool with one
  library; and one with an artifact and a directory in the models
  directory and a file beside it.
\<close>

definition fs0 :: node where
  "fs0 = Dir [(''tmp'', Dir [(''openscad_models'', Dir [])]),
              (''app'', Dir [(''libraries'', Dir [(''util.scad'', File ''module u(){}'')])])]"

definition fs1 :: node where
  "fs1 = Dir [(''tmp'', Dir [(''openscad_models'',
                             Dir [(''j1'', Dir [(''a.stl'', File ''solid a'')]),
                                  (''d.stl'', Dir [])]),
                            (''secret.stl'', File ''private'')]),
              (''app'', Dir [(''libraries'', Dir [])])]"

text \<open>
  Compilers for the examples: one that writes \<open>c\<close> to the output path
  (the argument after \<^verbatim>\<open>-o\<close>) and exits with 0, one that exits with 0
  and writes nothing, one that rejects its input, one that may not be
  run, one that is not installed, and one that writes \<open>c\<close> and prints
  bytes that are not text.  The descriptions of errors are the texts Python
  gives, with the path in quotes where it names one.
\<close>

definition compiler_writes :: "string \<Rightarrow> node \<Rightarrow> string list \<Rightarrow> proc_result" where
  "compiler_writes c t args =
     (case realpath t (args ! 2) of
        None \<Rightarrow> Exited 1 [] ''cannot write'' t
      | Some cs \<Rightarrow>
          (case put t cs (File c) of
             None \<Rightarrow> Exited 1 [] ''cannot write'' t
           | Some t' \<Rightarrow> Exited 0 [] [] t'))"

definition compiler_silent :: "node \<Rightarrow> string list \<Rightarrow> proc_result" where
  "compiler_silent t args = Exited 0 [] [] t"

definition compiler_rejects :: "node \<Rightarrow> string list \<Rightarrow> proc_result" where
  "compiler_rejects t args = Exited 1 [] ''ERROR: syntax error'' t"

definition in_quotes :: "string \<Rightarrow> string" where
  "in_quotes p = [CHR 0x27] @ p @ [CHR 0x27]"

definition compiler_denied :: "node \<Rightarrow> string list \<Rightarrow> proc_result" where
  "compiler_denied t args = SpawnFailed (''[Errno 13] Permission denied: '' @ in_quotes (args ! 0))"

definition compiler_garbled :: "string \<Rightarrow> node \<Rightarrow> string list \<Rightarrow> proc_result" where
  "compiler_garbled c t args =
     (case compiler_writes c t args of
        Exited rc out err t' \<Rightarrow> Undecodable rc t'
      | r \<Rightarrow> r)"

definition compiler_absent :: "node \<Rightarrow> string list \<Rightarrow> proc_result" where
  "compiler_absent t args = NoSuchExecutable"

definition no_fault :: "sysop \<Rightarrow> string option" where
  "no_fault op = None"

text \<open>
  Refusals of the operating system: no directory can be made; no file can
  be read; nothing can be written into the file opened at \<open>q\<close>.
\<close>

definition disk_full :: "sysop \<Rightarrow> string option" where
  "disk_full op =
     (case op of
        SysMakedirs p \<Rightarrow> Some (''[Errno 28] No space left on device: '' @ in_quotes p)
      | _ \<Rightarrow> None)"

definition read_denied :: "sysop \<Rightarrow> string option" where
  "read_denied op =
     (case op of
        SysRead p \<Rightarrow> Some (''[Errno 13] Permission denied: '' @ in_quotes p)
      | _ \<Rightarrow> None)"

definition write_full :: "string \<Rightarrow> sysop \<Rightarrow> string option" where
  "write_full q op =
     (case op of
        SysWrite p \<Rightarrow> (if p = q then Some ''[Errno 28] No space left on device'' else None)
      | _ \<Rightarrow> None)"

text \<open>
  The text of an exception in the examples: for an error of the operating
  system its description, for output that starts with the byte
  \<^verbatim>\<open>0xff\<close> the text of the codec, for a directory opened as a file
  the text that names the directory \<^verbatim>\<open>d.stl\<close> of \<open>fs1\<close>.  The examples
  evaluate the text of no other exception.
\<close>

fun str0 :: "exn \<Rightarrow> string" where
  "str0 (OSError m) = m"
| "str0 UnicodeDecodeError =
     [CHR 0x27] @ ''utf-8'' @ [CHR 0x27]
       @ '' codec can'' @ [CHR 0x27] @ ''t decode byte 0xff in position 0: invalid start byte''"
| "str0 IsADirectoryError =
     ''[Errno 21] Is a directory: '' @ in_quotes ''/tmp/openscad_models/d.stl''"

definition env_of :: "(sysop \<Rightarrow> string option) \<Rightarrow> (node \<Rightarrow> string list \<Rightarrow> proc_result) \<Rightarrow> env" where
  "env_of flt cc =
     \<lparr>uuid4 = ''0f8fad5b-d9cb-469f-a165-70867728950e'', os_fault = flt, openscad = cc,
      str_exn = str0\<rparr>"

definition body0 :: "json option" where
  "body0 = Some (JObj [(''scadCode'', JStr ''cube(1);'')])"

definition w0 :: world where
  "w0 = \<lparr>fs = fs0, stl_cache = Map.empty\<rparr>"

definition w1 :: world where
  "w1 = \<lparr>fs = fs1, stl_cache = Map.empty\<rparr>"

text \<open>
  The example request on the disk \<open>fs0\<close>: the name and the path of the
  artifact, the disk once the workspace is written, and the disk once a
  compiler has written \<open>c\<close> to the output path.
\<close>

definition stl0_name :: string where
  "stl0_name = ''0f8fad5b-d9cb-469f-a165-70867728950e.stl''"

definition stl0_path :: string where
  "stl0_path =
     ''/tmp/openscad_models/0f8fad5b-d9cb-469f-a165-70867728950e/0f8fad5b-d9cb-469f-a165-70867728950e.stl''"

definition scad0_path :: string where
  "scad0_path =
     ''/tmp/openscad_models/0f8fad5b-d9cb-469f-a165-70867728950e/0f8fad5b-d9cb-469f-a165-70867728950e.scad''"

text \<open>
  The disk \<open>fs0\<close> with the model directory made, and with the library
  copied and the source file opened.
\<close>

definition made0 :: node where
  "made0 =
     Dir [(''tmp'', Dir [(''openscad_models'',
            Dir [(''0f8fad5b-d9cb-469f-a165-70867728950e'', Dir [])])]),
          (''app'', Dir [(''libraries'', Dir [(''util.scad'', File ''module u(){}'')])])]"

definition opened0 :: node where
  "opened0 =
     Dir [(''tmp'', Dir [(''openscad_models'',
            Dir [(''0f8fad5b-d9cb-469f-a165-70867728950e'',
                  Dir [(''util.scad'', File ''module u(){}''),
                       (''0f8fad5b-d9cb-469f-a165-70867728950e.scad'', File [])])])]),
          (''app'', Dir [(''libraries'', Dir [(''util.scad'', File ''module u(){}'')])])]"

definition staged0 :: node where
  "staged0 =
     Dir [(''tmp'', Dir [(''openscad_models'',
            Dir [(''0f8fad5b-d9cb-469f-a165-70867728950e'',
                  Dir [(''util.scad'', File ''module u(){}''),
                       (''0f8fad5b-d9cb-469f-a165-70867728950e.scad'', File ''cube(1);'')])])]),
          (''app'', Dir [(''libraries'', Dir [(''util.scad'', File ''module u(){}'')])])]"

definition rendered0 :: "string \<Rightarrow> node" where
  "rendered0 c =
     Dir [(''tmp'', Dir [(''openscad_models'',
            Dir [(''0f8fad5b-d9cb-469f-a165-70867728950e'',
                  Dir [(''util.scad'', File ''module u(){}''),
                       (''0f8fad5b-d9cb-469f-a165-70867728950e.scad'', File ''cube(1);''),
                       (''0f8fad5b-d9cb-469f-a165-70867728950e.stl'', File c)])])]),
          (''app'', Dir [(''libraries'', Dir [(''util.scad'', File ''module u(){}'')])])]"

section \<open>Unfolding rules\<close>

lemmas path_defs = MODELS_DIR_def LIBRARIES_DIR_def OPENSCAD_PATH_def model_dir_def
  scad_file_path_def stl_file_path_def openscad_args_def join_def basename_def endswith_def

lemmas fs_defs = realpath_def stat_def exists_def isdir_def os_walk_def no_such_def
  file_in_the_way_def

lemmas sys_defs = guard_def os_makedirs_def os_listdir_def read_file_def open_w_def fwrite_def
  write_file_def copy2_def getsize_def send_file_def subprocess_run_def

lemmas handler_defs = get_scad_code_def create_workspace_def RenderScad_post_def GetStl_post_def
  locate_stl_def View3D_get_def UploadLibrary_post_def

lemmas example_defs = fs0_def fs1_def compiler_writes_def compiler_silent_def
  compiler_rejects_def compiler_denied_def compiler_absent_def compiler_garbled_def
  no_fault_def disk_full_def read_denied_def write_full_def
  env_of_def body0_def w0_def w1_def stl0_name_def stl0_path_def staged0_def rendered0_def
  in_quotes_def scad0_path_def made0_def opened0_def

lemmas response_defs = ToolUnavailable_def CompilationFailed_def OutputMissing_def
  UnexpectedError_def StlPath_def InvalidFileParameter_def NotFound_def ServeError_def
  NoFilePart_def NoFileSelected_def OnlyScadAllowed_def UploadError_def UploadOk_def

lemmas eval_defs = path_defs fs_defs sys_defs handler_defs example_defs

section \<open>Facts about the replies\<close>

lemma render_except_not_StlPath: "render_except e x \<noteq> StlPath b"
  by (cases x) (simp_all add: response_defs)

lemma StlPath_inject: "(StlPath a = StlPath b) = (a = b)"
  by (simp add: StlPath_def)

lemma StlPath_distinct:
  "StlPath b \<noteq> render_except e x" "render_except e x \<noteq> StlPath b"
  "StlPath b \<noteq> OutputMissing" "OutputMissing \<noteq> StlPath b"
  "StlPath b \<noteq> ToolUnavailable" "StlPath b \<noteq> CompilationFailed err"
  "StlPath b \<noteq> UnexpectedError m"
  using render_except_not_StlPath [of e x b] by (auto simp: response_defs)

lemma OutputMissing_distinct:
  "OutputMissing \<noteq> ToolUnavailable" "OutputMissing \<noteq> CompilationFailed err"
  "OutputMissing \<noteq> UnexpectedError m"
  by (simp_all add: response_defs)

lemma InvalidInput_replies:
  "InvalidInput NoFilePart" "InvalidInput NoFileSelected" "InvalidInput OnlyScadAllowed"
  "InvalidInput InvalidFileParameter"
  by (simp_all add: response_defs)

lemma InvalidFileParameter_distinct:
  "NotFound \<noteq> InvalidFileParameter" "ServeError m \<noteq> InvalidFileParameter"
  "FileResponse c mt a d \<noteq> InvalidFileParameter"
  by (simp_all add: response_defs)

section \<open>Facts about paths and the tree\<close>

lemma split_slash_ne: "split_slash p \<noteq> []"
  by (induction p) (auto split: list.splits)

lemma split_slash_append_slash:
  "split_slash (a @ CHR ''/'' # b) = split_slash a @ split_slash b"
  by (induction a) (auto split: list.splits simp: split_slash_ne)

lemma split_slash_plain: "CHR ''/'' \<notin> set n \<Longrightarrow> split_slash n = [n]"
  by (induction n) auto






lemma join_plain:
  "valid_name n \<Longrightarrow> r \<noteq> [] \<Longrightarrow> last r \<noteq> CHR ''/'' \<Longrightarrow> join r n = r @ CHR ''/'' # n"
  by (cases n) (auto simp: join_def valid_name_def)

lemma canon_append:
  "canon t cur (xs @ ys) = (case canon t cur xs of None \<Rightarrow> None | Some c \<Rightarrow> canon t c ys)"
  by (induction xs arbitrary: cur) auto

lemma lookup_append:
  "lookup t (xs @ ys) = (case lookup t xs of None \<Rightarrow> None | Some n \<Rightarrow> lookup n ys)"
  by (induction t xs rule: lookup.induct) (auto split: option.splits)

lemma realpath_child:
  assumes "realpath t r = Some cs" and "lookup t cs = Some (Dir es)" and "valid_name n"
    and "r \<noteq> []" and "last r \<noteq> CHR ''/''"
  shows "realpath t (join r n) = Some (cs @ [n])"
proof -
  have j: "join r n = r @ CHR ''/'' # n" using assms by (simp add: join_plain)
  have s: "split_slash n = [n]" using assms(3) by (simp add: valid_name_def split_slash_plain)
  have c: "canon t [] (split_slash r) = Some cs" using assms(1,4) by (simp add: realpath_def)
  show ?thesis
    using assms(2,3) by (simp add: realpath_def j split_slash_append_slash s canon_append c valid_name_def)
qed

lemma wf_node_lookup: "wf_node t \<Longrightarrow> lookup t cs = Some n \<Longrightarrow> wf_node n"
proof (induction t cs rule: lookup.induct)
  case (3 es x xs)
  then show ?case by (auto split: option.splits dest!: map_of_SomeD)
qed auto

lemma walk_files_valid:
  "wf_node n \<Longrightarrow> (root, dirs, files) \<in> set (walk r n) \<Longrightarrow> f \<in> set files \<Longrightarrow> valid_name f"
  by (induction r n rule: walk.induct) auto

lemma walk_complete:
  "lookup n (ds @ [f]) = Some (File c) \<Longrightarrow> \<exists>x \<in> set (walk r n). f \<in> set (snd (snd x))"
proof (induction ds arbitrary: n r)
  case Nil
  then obtain es where n: "n = Dir es" by (cases n) auto
  with Nil have "(f, File c) \<in> set es"
    by (auto split: option.splits dest!: map_of_SomeD)
  then have "f \<in> set (map fst (filter (\<lambda>e. \<not> is_dir (Some (snd e))) es))"
    by force
  then show ?case using n by simp
next
  case (Cons d ds)
  then obtain es where n: "n = Dir es" by (cases n) auto
  with Cons.prems obtain ch where ch: "map_of es d = Some ch" "lookup ch (ds @ [f]) = Some (File c)"
    by (auto split: option.splits)
  from Cons.IH [OF ch(2), of "join r d"]
  obtain x where "x \<in> set (walk (join r d) ch)" "f \<in> set (snd (snd x))" by blast
  moreover have "(d, ch) \<in> set es" using ch(1) by (rule map_of_SomeD)
  ultimately show ?case using n by force
qed

lemma walk_sound:
  "wf_node n \<Longrightarrow> lookup t cs = Some n \<Longrightarrow> realpath t r = Some cs \<Longrightarrow> r \<noteq> [] \<Longrightarrow>
   last r \<noteq> CHR ''/'' \<Longrightarrow> (root, dirs, files) \<in> set (walk r n) \<Longrightarrow> f \<in> set files \<Longrightarrow>
   \<exists>ds c. realpath t (join root f) = Some (cs @ ds @ [f])
          \<and> lookup t (cs @ ds @ [f]) = Some (File c)"
proof (induction r n arbitrary: cs rule: walk.induct)
  case (1 r c)
  then show ?case by simp
next
  case (2 r es)
  from "2.prems"(6) consider
      (here) "root = r" "files = map fst (filter (\<lambda>e. \<not> is_dir (Some (snd e))) es)"
    | (below) en where "en \<in> set es" "(root, dirs, files) \<in> set (walk (join r (fst en)) (snd en))"
    by auto
  then show ?case
  proof cases
    case here
    with "2.prems"(7) obtain nd where nd: "(f, nd) \<in> set es" "\<not> is_dir (Some nd)" by auto
    then obtain c where c: "nd = File c" by (cases nd) auto
    have vf: "valid_name f" using "2.prems"(1) nd(1) by auto
    have m: "map_of es f = Some (File c)" using "2.prems"(1) nd(1) c by simp
    have rp: "realpath t (join r f) = Some (cs @ [f])"
      using realpath_child [OF "2.prems"(3) "2.prems"(2) vf "2.prems"(4) "2.prems"(5)] .
    have "lookup t (cs @ [f]) = Some (File c)"
      using "2.prems"(2) m by (simp add: lookup_append)
    with rp here(1) have "realpath t (join root f) = Some (cs @ [] @ [f])
        \<and> lookup t (cs @ [] @ [f]) = Some (File c)" by simp
    then show ?thesis by blast
  next
    case below
    obtain d ch where en: "en = (d, ch)" by (cases en)
    have vd: "valid_name d" and wch: "wf_node ch" using "2.prems"(1) below(1) en by auto
    have m: "map_of es d = Some ch" using "2.prems"(1) below(1) en by simp
    have rp: "realpath t (join r d) = Some (cs @ [d])"
      using realpath_child [OF "2.prems"(3) "2.prems"(2) vd "2.prems"(4) "2.prems"(5)] .
    have lk: "lookup t (cs @ [d]) = Some ch"
      using "2.prems"(2) m by (simp add: lookup_append)
    have j: "join r d = r @ CHR ''/'' # d" using vd "2.prems"(4,5) by (simp add: join_plain)
    have "last d \<noteq> CHR ''/''"
      using vd last_in_set [of d] unfolding valid_name_def by metis
    then have ne: "join r d \<noteq> []" and la: "last (join r d) \<noteq> CHR ''/''"
      using vd by (auto simp: j valid_name_def)
    from "2.IH" [OF below(1), of "cs @ [d]"] wch lk rp ne la below(2) "2.prems"(7) en
    obtain ds c where "realpath t (join root f) = Some ((cs @ [d]) @ ds @ [f])"
      "lookup t ((cs @ [d]) @ ds @ [f]) = Some (File c)" by auto
    then have "realpath t (join root f) = Some (cs @ (d # ds) @ [f])
        \<and> lookup t (cs @ (d # ds) @ [f]) = Some (File c)" by simp
    then show ?thesis by blast
  qed
qed


lemma map_of_upd_entry: "map_of (upd_entry k v es) = (map_of es)(k \<mapsto> v)"
  by (induction es) (auto simp: fun_eq_iff)

lemma lookup_put_same: "put t cs n = Some t' \<Longrightarrow> lookup t' cs = Some n"
proof (induction t cs n arbitrary: t' rule: put.induct)
  case (3 es x xs new)
  then show ?case
    by (auto simp: map_of_upd_entry split: if_splits option.splits)
qed auto

lemma not_dir_below: "\<not> is_dir (Some ch) \<Longrightarrow> \<not> is_dir (lookup ch ys)"
  by (cases ch; cases ys) auto

lemma is_dir_lookup_put:
  "put t cs (File s) = Some t' \<Longrightarrow> \<not> is_dir (lookup t cs) \<Longrightarrow>
   is_dir (lookup t' ds) = is_dir (lookup t ds)"
proof (induction t cs "File s" arbitrary: t' ds rule: put.induct)
  case (1 n)
  then show ?case by (cases n; cases ds) auto
next
  case (2 c x xs)
  then show ?case by simp
next
  case (3 es x xs)
  show ?case
  proof (cases ds)
    case Nil
    with "3.prems" show ?thesis by (auto split: if_splits option.splits)
  next
    case (Cons y ys)
    show ?thesis
    proof (cases "xs = []")
      case True
      with "3.prems" have t': "t' = Dir (upd_entry x (File s) es)"
        and nd: "\<not> is_dir (map_of es x)" by (auto split: option.splits)
      show ?thesis
      proof (cases "y = x")
        case True
        have "\<not> is_dir (lookup (File s) ys)" by (cases ys) auto
        moreover have "\<not> is_dir (case map_of es x of None \<Rightarrow> None | Some ch \<Rightarrow> lookup ch ys)"
          using nd not_dir_below by (auto split: option.splits)
        ultimately show ?thesis using True Cons t' by (simp add: map_of_upd_entry)
      next
        case False
        then show ?thesis using Cons t' by (simp add: map_of_upd_entry)
      qed
    next
      case False
      with "3.prems" obtain ch ch' where ch: "map_of es x = Some ch" "put ch xs (File s) = Some ch'"
        "t' = Dir (upd_entry x ch' es)" and nd: "\<not> is_dir (lookup ch xs)"
        by (auto split: option.splits)
      have ih: "is_dir (lookup ch' ys) = is_dir (lookup ch ys)"
        using "3.hyps" [OF False ch(1) ch(2) nd] .
      show ?thesis using Cons ch ih by (simp add: map_of_upd_entry)
    qed
  qed
qed

lemma canon_same_dirs:
  "(\<And>ds. is_dir (lookup t' ds) = is_dir (lookup t ds)) \<Longrightarrow> canon t' cur cs = canon t cur cs"
  by (induction cs arbitrary: cur) auto

section \<open>Facts about the fetch handler\<close>

lemma find_SomeD: "find P xs = Some x \<Longrightarrow> x \<in> set xs \<and> P x"
  by (induction xs) (auto split: if_splits)

lemma MODELS_DIR_shape: "MODELS_DIR \<noteq> []" "last MODELS_DIR \<noteq> CHR ''/''"
  by (simp_all add: MODELS_DIR_def join_def)

lemma read_file_File:
  "stat t p = Some (File c) \<Longrightarrow> os_fault e (SysRead p) = None \<Longrightarrow> read_file e t p = Inr c"
  by (simp add: read_file_def guard_def)

lemma serve_file:
  assumes "f \<noteq> []" and "endswith f ''.stl''"
    and "stat (fs w) (locate_stl w f) = Some (File c)"
    and "os_fault e (SysRead (locate_stl w f)) = None"
  shows "View3D_get e (Some f) w = (Returned (FileResponse c ''model/stl'' False None), w)"
  using assms
  by (simp add: View3D_get_def exists_def getsize_def send_file_def read_file_File)

lemma view3d_never_raises: "fst (View3D_get e file w) \<noteq> Raised x"
  by (auto simp: View3D_get_def split: option.splits sum.splits)

lemma scan_finds_file:
  assumes wf: "wf_node (fs w)" and miss: "stl_cache w f = None"
    and mp: "realpath (fs w) MODELS_DIR = Some mcs"
    and reg: "lookup (fs w) (mcs @ ds @ [f]) = Some (File c)"
  shows "\<exists>ds' c'. realpath (fs w) (locate_stl w f) = Some (mcs @ ds' @ [f])
           \<and> lookup (fs w) (mcs @ ds' @ [f]) = Some (File c')"
proof -
  from reg obtain n where n: "lookup (fs w) mcs = Some n" "lookup n (ds @ [f]) = Some (File c)"
    by (auto simp: lookup_append split: option.splits)
  have wn: "wf_node n" using wf n(1) by (rule wf_node_lookup)
  have ow: "os_walk (fs w) MODELS_DIR = walk MODELS_DIR n"
    using mp n(1) by (simp add: os_walk_def stat_def)
  from walk_complete [OF n(2), of MODELS_DIR]
  obtain x where x: "x \<in> set (walk MODELS_DIR n)" "f \<in> set (snd (snd x))" by blast
  have "\<exists>y. y \<in> set (walk MODELS_DIR n) \<and> (case y of (root, dirs, files) \<Rightarrow> f \<in> set files)"
    using x by (intro exI [of _ x]) (simp add: case_prod_beta)
  then have "find (\<lambda>(root, dirs, files). f \<in> set files) (walk MODELS_DIR n) \<noteq> None"
    by (simp add: find_None_iff)
  then obtain root dirs files where
    fd: "find (\<lambda>(root, dirs, files). f \<in> set files) (walk MODELS_DIR n) = Some (root, dirs, files)"
    by (cases "find (\<lambda>(root, dirs, files). f \<in> set files) (walk MODELS_DIR n)") auto
  from find_SomeD [OF fd] have mem: "(root, dirs, files) \<in> set (walk MODELS_DIR n)" "f \<in> set files"
    by auto
  have loc: "locate_stl w f = join root f"
    using miss ow fd by (simp add: locate_stl_def)
  from walk_sound [OF wn n(1) mp MODELS_DIR_shape mem]
  show ?thesis by (simp add: loc)
qed

lemma scan_misses_separator:
  assumes wf: "wf_node (fs w)" and sep: "CHR ''/'' \<in> set f"
  shows "find (\<lambda>(root, dirs, files). f \<in> set files) (os_walk (fs w) MODELS_DIR) = None"
proof (cases "stat (fs w) MODELS_DIR")
  case None
  then show ?thesis by (simp add: os_walk_def)
next
  case (Some n)
  then have "wf_node n" using wf wf_node_lookup
    by (auto simp: stat_def split: option.splits)
  then have "\<And>root dirs files. (root, dirs, files) \<in> set (walk MODELS_DIR n) \<Longrightarrow> f \<notin> set files"
    using walk_files_valid sep unfolding valid_name_def by blast
  then show ?thesis using Some by (auto simp: os_walk_def find_None_iff)
qed

section \<open>Facts about the example states\<close>

lemma body0_code: "get_scad_code body0 = Inr (JStr ''cube(1);'')"
  by (simp add: get_scad_code_def body0_def)

lemma env_of_sel:
  "openscad (env_of flt cc) = cc" "os_fault (env_of flt cc) = flt"
  "uuid4 (env_of flt cc) = ''0f8fad5b-d9cb-469f-a165-70867728950e''"
  "str_exn (env_of flt cc) = str0"
  by (simp_all add: env_of_def)

lemma w0_sel: "fs w0 = fs0" "stl_cache w0 = Map.empty"
  by (simp_all add: w0_def)

lemma wf_fs1: "wf_node fs1"
  by (simp add: fs1_def valid_name_def)

lemma stl_file_path0: "stl_file_path (env_of flt cc) = stl0_path"
  by (simp add: path_defs env_of_def stl0_path_def)

lemma basename0: "basename stl0_path = stl0_name"
  by (simp add: basename_def stl0_path_def stl0_name_def)

lemma stage0: "create_workspace (env_of no_fault cc) fs0 (JStr ''cube(1);'') = (Inr (), staged0)"
  by (simp add: eval_defs)

lemma stage0_w0:
  "create_workspace (env_of no_fault cc) (fs w0) (JStr ''cube(1);'') = (Inr (), staged0)"
  by (simp add: w0_def stage0)

lemma writes0:
  "compiler_writes c staged0 (openscad_args (env_of flt cc)) = Exited 0 [] [] (rendered0 c)"
  by (simp add: eval_defs)

lemma stat_rendered0: "stat (rendered0 c) stl0_path = Some (File c)"
  by (simp add: fs_defs rendered0_def stl0_path_def)

lemma stat_staged0: "stat staged0 stl0_path = None"
  by (simp add: fs_defs staged0_def stl0_path_def)

lemma render0_writes:
  "RenderScad_post (env_of no_fault (compiler_writes c)) body0 w0
     = (Returned (StlPath stl0_name), \<lparr>fs = rendered0 c, stl_cache = [stl0_name \<mapsto> stl0_path]\<rparr>)"
  using writes0 [of c no_fault "compiler_writes c"]
  by (simp add: RenderScad_post_def body0_code w0_def stage0 subprocess_run_def
        stl_file_path0 basename0 exists_def stat_rendered0 env_of_sel)

lemma render0_silent:
  "RenderScad_post (env_of no_fault compiler_silent) body0 w0
     = (Returned OutputMissing, \<lparr>fs = staged0, stl_cache = [stl0_name \<mapsto> stl0_path]\<rparr>)"
  by (simp add: RenderScad_post_def body0_code w0_def stage0 subprocess_run_def
        stl_file_path0 basename0 exists_def stat_staged0 env_of_sel compiler_silent_def)

lemma render0_rejects:
  "RenderScad_post (env_of no_fault compiler_rejects) body0 w0
     = (Returned (CompilationFailed ''ERROR: syntax error''), \<lparr>fs = staged0, stl_cache = Map.empty\<rparr>)"
  by (simp add: RenderScad_post_def body0_code w0_def stage0 subprocess_run_def
        env_of_sel compiler_rejects_def)

lemma getstl0_writes:
  "GetStl_post (env_of no_fault (compiler_writes c)) body0 w0
     = (Returned (FileResponse c ''application/octet-stream'' True (Some ''model.stl'')),
        \<lparr>fs = rendered0 c, stl_cache = Map.empty\<rparr>)"
  using writes0 [of c no_fault "compiler_writes c"]
  by (simp add: GetStl_post_def body0_code w0_def stage0 subprocess_run_def
        stl_file_path0 exists_def stat_rendered0 env_of_sel send_file_def read_file_def
        guard_def no_fault_def)

lemma join_MODELS_DIR:
  "f \<noteq> [] \<Longrightarrow> join MODELS_DIR f = (if hd f = CHR ''/'' then f else MODELS_DIR @ ''/'' @ f)"
  by (simp add: join_def MODELS_DIR_shape)

lemma view3d_invalid_iff:
  "fst (View3D_get e file w) = Returned InvalidFileParameter
     \<longleftrightarrow> (file = None \<or> file = Some [] \<or> (\<exists>f. file = Some f \<and> \<not> endswith f ''.stl''))"
  by (auto simp: View3D_get_def send_file_def InvalidFileParameter_distinct
           split: option.splits sum.splits)

section \<open>Facts about writing a file\<close>

lemma is_dir_prefix: "is_dir (lookup t (xs @ ys)) \<Longrightarrow> is_dir (lookup t xs)"
proof (induction t xs rule: lookup.induct)
  case (1 n)
  then show ?case by (cases n; cases ys) auto
next
  case (2 c x xs)
  then show ?case by simp
next
  case (3 es x xs)
  then show ?case by (auto split: option.splits)
qed

lemma is_dir_butlast: "is_dir (lookup t cur) \<Longrightarrow> is_dir (lookup t (butlast cur))"
  using is_dir_prefix [of t "butlast cur" "[last cur]"] by (cases "cur = []") auto

lemma canon_parent:
  "canon t cur comps = Some cs \<Longrightarrow> is_dir (lookup t (butlast cur)) \<Longrightarrow>
   is_dir (lookup t (butlast cs))"
proof (induction comps arbitrary: cur)
  case Nil
  then show ?case by simp
next
  case (Cons c comps)
  then show ?case
    by (auto split: if_splits simp: is_dir_butlast)
qed

lemma put_succeeds:
  "is_dir (lookup t (butlast cs)) \<Longrightarrow> \<exists>t'. put t cs n = Some t'"
proof (induction t cs n rule: put.induct)
  case (3 es x xs new)
  show ?case
  proof (cases "xs = []")
    case True
    then show ?thesis by simp
  next
    case False
    with "3.prems" obtain ch where ch: "map_of es x = Some ch" "is_dir (lookup ch (butlast xs))"
      by (auto split: option.splits)
    from "3.IH" [OF False ch] obtain ch' where "put ch xs new = Some ch'" by blast
    with ch False show ?thesis by simp
  qed
qed (auto split: if_splits)

lemma realpath_parent:
  assumes "realpath t p = Some cs" and "is_dir (Some t)"
  shows "is_dir (lookup t (butlast cs))"
proof -
  have "canon t [] (split_slash p) = Some cs"
    using assms(1) by (cases "p = []") (simp_all add: realpath_def)
  from canon_parent [OF this] assms(2) show ?thesis by simp
qed

lemma realpath_root_dir: "realpath t p = Some cs \<Longrightarrow> is_dir (Some t)"
  by (cases "p = []"; cases "split_slash p") (auto simp: realpath_def split_slash_ne split: if_splits)

lemma realpath_after_put:
  assumes "put t cs (File s) = Some t'" and "\<not> is_dir (lookup t cs)"
  shows "realpath t' p = realpath t p"
proof -
  have "\<And>cur comps. canon t' cur comps = canon t cur comps"
    using canon_same_dirs [of t' t] is_dir_lookup_put [OF assms] by simp
  then show ?thesis by (simp add: realpath_def)
qed

lemma open_w_ok:
  assumes "realpath t p = Some cs" and "\<not> is_dir (lookup t cs)"
    and "os_fault e (SysOpenW p) = None"
  shows "\<exists>t1. open_w e t p = Inr (cs, t1) \<and> put t cs (File []) = Some t1"
proof -
  from put_succeeds [OF realpath_parent [OF assms(1) realpath_root_dir [OF assms(1)]]]
  obtain t1 where "put t cs (File []) = Some t1" by blast
  then show ?thesis using assms by (simp add: open_w_def guard_def)
qed

lemma write_file_ok:
  assumes "realpath t p = Some cs" and "\<not> is_dir (lookup t cs)"
    and "os_fault e (SysOpenW p) = None" and "os_fault e (SysWrite p) = None"
  shows "\<exists>t'. write_file e t p s = (Inr (), t') \<and> realpath t' p = Some cs
               \<and> lookup t' cs = Some (File s)"
proof -
  from open_w_ok [OF assms(1-3)] obtain t1 where
    o: "open_w e t p = Inr (cs, t1)" and p1: "put t cs (File []) = Some t1" by blast
  have r1: "realpath t1 p = Some cs" using realpath_after_put [OF p1 assms(2)] assms(1) by simp
  have l1: "lookup t1 cs = Some (File [])" using p1 by (rule lookup_put_same)
  from put_succeeds [OF realpath_parent [OF r1 realpath_root_dir [OF r1]]]
  obtain t2 where p2: "put t1 cs (File s) = Some t2" by blast
  have "realpath t2 p = Some cs" using realpath_after_put [OF p2] l1 r1 by simp
  moreover have "lookup t2 cs = Some (File s)" using p2 by (rule lookup_put_same)
  moreover have "write_file e t p s = (Inr (), t2)"
    using o p2 assms(4) by (simp add: write_file_def fwrite_def guard_def)
  ultimately show ?thesis by blast
qed

lemma write_file_truncates:
  assumes "realpath t p = Some cs" and "\<not> is_dir (lookup t cs)"
    and "os_fault e (SysOpenW p) = None" and "os_fault e (SysWrite p) = Some m"
  shows "\<exists>t'. write_file e t p s = (Inl (OSError m), t') \<and> realpath t' p = Some cs
               \<and> lookup t' cs = Some (File [])"
proof -
  from open_w_ok [OF assms(1-3)] obtain t1 where
    o: "open_w e t p = Inr (cs, t1)" and p1: "put t cs (File []) = Some t1" by blast
  have "realpath t1 p = Some cs" using realpath_after_put [OF p1 assms(2)] assms(1) by simp
  moreover have "lookup t1 cs = Some (File [])" using p1 by (rule lookup_put_same)
  moreover have "write_file e t p s = (Inl (OSError m), t1)"
    using o assms(4) by (simp add: write_file_def fwrite_def guard_def)
  ultimately show ?thesis by blast
qed

lemma LIBRARIES_DIR_shape: "LIBRARIES_DIR \<noteq> []" "last LIBRARIES_DIR \<noteq> CHR ''/''"
  by (simp_all add: LIBRARIES_DIR_def join_def)

lemma copy_libraries_append:
  "copy_libraries e t d (xs @ ys) =
     (case copy_libraries e t d xs of
        (Inl x, t') \<Rightarrow> (Inl x, t')
      | (Inr u, t') \<Rightarrow> copy_libraries e t' d ys)"
  by (induction xs arbitrary: t) (auto split: prod.splits sum.splits)

section \<open>Facts about the reply of the fetch handler\<close>

lemma getsize_ok: "stat t p = Some n \<Longrightarrow> \<exists>k. getsize t p = Inr k"
  by (cases n) (simp_all add: getsize_def)

lemma view3d_reply:
  assumes "f \<noteq> []" and "endswith f ''.stl''" and "stat (fs w) (locate_stl w f) = Some n"
  shows "View3D_get e (Some f) w =
           (case read_file e (fs w) (locate_stl w f) of
              Inl x \<Rightarrow> (Returned (ServeError (str_exn e x)), w)
            | Inr c \<Rightarrow> (Returned (FileResponse c ''model/stl'' False None), w))"
proof -
  obtain k where "getsize (fs w) (locate_stl w f) = Inr k" using getsize_ok [OF assms(3)] by blast
  then show ?thesis
    using assms by (simp add: View3D_get_def exists_def send_file_def split: sum.splits)
qed

lemma NotFound_distinct:
  "ServeError m \<noteq> NotFound" "FileResponse c mt a d \<noteq> NotFound"
  by (simp_all add: response_defs)

lemma view3d_notfound_iff:
  assumes "f \<noteq> []" and "endswith f ''.stl''"
  shows "fst (View3D_get e (Some f) w) = Returned NotFound \<longleftrightarrow> \<not> exists (fs w) (locate_stl w f)"
proof (cases "stat (fs w) (locate_stl w f)")
  case None
  then show ?thesis using assms by (simp add: View3D_get_def exists_def)
next
  case (Some n)
  then show ?thesis
    using view3d_reply [OF assms Some, of e]
    by (auto simp: exists_def NotFound_distinct split: sum.splits)
qed

section \<open>Facts about failing and odd requests\<close>

lemma render0_disk_full:
  "RenderScad_post (env_of disk_full cc) body0 w0
     = (Raised (OSError (''[Errno 28] No space left on device: ''
                          @ in_quotes (model_dir (env_of disk_full cc)))), w0)"
  by (simp add: RenderScad_post_def body0_code create_workspace_def os_makedirs_def guard_def
        env_of_sel disk_full_def)

lemma render0_read_denied:
  "RenderScad_post (env_of read_denied cc) body0 w0
     = (Raised (OSError (''[Errno 13] Permission denied: '' @ in_quotes ''/app/libraries/util.scad'')),
        w0\<lparr>fs := made0\<rparr>)"
  by (simp add: eval_defs)

lemma render0_write_full:
  "RenderScad_post (env_of (write_full scad0_path) cc) body0 w0
     = (Raised (OSError ''[Errno 28] No space left on device''), w0\<lparr>fs := opened0\<rparr>)"
  by (simp add: eval_defs)

lemma garbled0:
  "compiler_garbled c staged0 (openscad_args (env_of flt cc)) = Undecodable 0 (rendered0 c)"
  by (simp add: compiler_garbled_def writes0)

lemma w1_sel: "fs w1 = fs1" "stl_cache w1 = Map.empty"
  by (simp_all add: w1_def)

lemma valid_stl_names:
  "''a.stl'' \<noteq> []" "endswith ''a.stl'' ''.stl''" "''b.stl'' \<noteq> []" "endswith ''b.stl'' ''.stl''"
  "''d.stl'' \<noteq> []" "endswith ''d.stl'' ''.stl''"
  "''../secret.stl'' \<noteq> []" "endswith ''../secret.stl'' ''.stl''"
  by (simp_all add: endswith_def)

lemma walk_fs1:
  "os_walk fs1 MODELS_DIR
     = [(''/tmp/openscad_models'', [''j1'', ''d.stl''], []),
        (''/tmp/openscad_models/j1'', [], [''a.stl'']),
        (''/tmp/openscad_models/d.stl'', [], [])]"
  by (simp add: fs1_def path_defs fs_defs)

lemma upload0_paths:
  "join LIBRARIES_DIR ''util.scad'' = ''/app/libraries/util.scad''"
  "join LIBRARIES_DIR ''gear.scad'' = ''/app/libraries/gear.scad''"
  "join LIBRARIES_DIR ''/tmp/x.scad'' = ''/tmp/x.scad''"
  "realpath fs0 ''/app/libraries/util.scad'' = Some [''app'', ''libraries'', ''util.scad'']"
  "realpath fs0 ''/app/libraries/gear.scad'' = Some [''app'', ''libraries'', ''gear.scad'']"
  "realpath fs0 LIBRARIES_DIR = Some [''app'', ''libraries'']"
  "lookup fs0 [''app'', ''libraries'', ''util.scad''] = Some (File ''module u(){}'')"
  "lookup fs0 [''app'', ''libraries'', ''gear.scad''] = None"
  by (simp_all add: path_defs fs_defs fs0_def)

section \<open>Rendering\<close>

text \<open>
  C1, as the code has it.  When \<^verbatim>\<open>RenderScad.post\<close> returns the
  reference to an artifact, the index has gained exactly the entry from the
  artifact's name to its path, and that path exists on the disk (nothing
  looks at the content of the file).  When it answers \<open>ToolUnavailable\<close>,
  \<open>CompilationFailed\<close> or \<^verbatim>\<open>Unexpected error\<close>, or raises, the index is
  the one before the request.
\<close>

theorem index_entry_on_success:
  assumes "RenderScad_post e body w = (out, w')"
  shows "(\<forall>b. out = Returned (StlPath b) \<longrightarrow>
            b = basename (stl_file_path e)
            \<and> stl_cache w' = (stl_cache w)(b \<mapsto> stl_file_path e)
            \<and> exists (fs w') (stl_file_path e))
       \<and> ((out = Returned ToolUnavailable \<or> (\<exists>err. out = Returned (CompilationFailed err))
            \<or> (\<exists>m. out = Returned (UnexpectedError m)) \<or> (\<exists>x. out = Raised x))
           \<longrightarrow> stl_cache w' = stl_cache w)"
  using assms
  by (auto simp: RenderScad_post_def StlPath_inject StlPath_distinct OutputMissing_distinct
           split: sum.splits prod.splits if_splits)

text \<open>C1, at a compiler that writes the mesh \<^verbatim>\<open>solid\<close>.\<close>

theorem index_entry_on_success_witness:
  "stl_cache (snd (RenderScad_post (env_of no_fault (compiler_writes ''solid'')) body0 w0))
       stl0_name = Some stl0_path
   \<and> exists (fs (snd (RenderScad_post (env_of no_fault (compiler_writes ''solid'')) body0 w0)))
        stl0_path"
  using index_entry_on_success [OF render0_writes [of "''solid''"]]
  by (simp add: render0_writes stl_file_path0 basename0 StlPath_inject)

text \<open>
  C1 as stated fails twice.  A compiler that exits with 0 and writes
  nothing gets the reply \<open>OutputMissing\<close>, and the index has the entry
  for a path that does not exist.  A compiler that exits with 0 and writes
  an empty file gets the reference, and the registered file is empty.
\<close>

theorem index_entry_counterexample:
  "fst (RenderScad_post (env_of no_fault compiler_silent) body0 w0) = Returned OutputMissing
   \<and> stl_cache (snd (RenderScad_post (env_of no_fault compiler_silent) body0 w0)) stl0_name
      = Some stl0_path
   \<and> \<not> exists (fs (snd (RenderScad_post (env_of no_fault compiler_silent) body0 w0))) stl0_path
   \<and> fst (RenderScad_post (env_of no_fault (compiler_writes [])) body0 w0)
      = Returned (StlPath stl0_name)
   \<and> stl_cache (snd (RenderScad_post (env_of no_fault (compiler_writes [])) body0 w0)) stl0_name
      = Some stl0_path
   \<and> stat (fs (snd (RenderScad_post (env_of no_fault (compiler_writes [])) body0 w0))) stl0_path
      = Some (File [])"
  by (simp add: render0_silent render0_writes exists_def stat_staged0 stat_rendered0)

text \<open>
  C2, as the code has it.  \<^verbatim>\<open>GetStl.post\<close> goes through the steps of
  \<^verbatim>\<open>RenderScad.post\<close> and leaves the same disk; where the latter does not
  return a reference it gives the same reply or raises the same exception,
  and where the latter returns a reference it sends the artifact file.  It
  never changes the index: the artifact of a successful call is not
  registered.
\<close>

theorem getstl_same_steps_no_index:
  "stl_cache (snd (GetStl_post e body w)) = stl_cache w
   \<and> fs (snd (GetStl_post e body w)) = fs (snd (RenderScad_post e body w))
   \<and> ((\<forall>b. fst (RenderScad_post e body w) \<noteq> Returned (StlPath b)) \<longrightarrow>
        fst (GetStl_post e body w) = fst (RenderScad_post e body w))
   \<and> ((\<exists>b. fst (RenderScad_post e body w) = Returned (StlPath b)) \<longrightarrow>
        fst (GetStl_post e body w) =
          (case send_file e (fs (snd (RenderScad_post e body w))) (stl_file_path e)
                  ''application/octet-stream'' True (Some ''model.stl'') of
             Inl x \<Rightarrow> Raised x | Inr r \<Rightarrow> Returned r))"
  by (auto simp: GetStl_post_def RenderScad_post_def StlPath_distinct
           split: sum.splits prod.splits)

text \<open>C2, at a compiler that rejects its input and at one that writes a mesh.\<close>

theorem getstl_same_steps_no_index_witness:
  "fst (GetStl_post (env_of no_fault compiler_rejects) body0 w0)
     = Returned (CompilationFailed ''ERROR: syntax error'')
   \<and> stl_cache (snd (GetStl_post (env_of no_fault compiler_rejects) body0 w0)) = Map.empty
   \<and> fs (snd (GetStl_post (env_of no_fault compiler_rejects) body0 w0)) = staged0
   \<and> fst (GetStl_post (env_of no_fault (compiler_writes ''solid'')) body0 w0)
     = Returned (FileResponse ''solid'' ''application/octet-stream'' True (Some ''model.stl''))
   \<and> stl_cache (snd (GetStl_post (env_of no_fault (compiler_writes ''solid'')) body0 w0))
     = Map.empty"
proof -
  have s: "send_file (env_of no_fault (compiler_writes ''solid'')) (rendered0 ''solid'') stl0_path
             ''application/octet-stream'' True (Some ''model.stl'')
           = Inr (FileResponse ''solid'' ''application/octet-stream'' True (Some ''model.stl''))"
    by (simp add: send_file_def read_file_def guard_def env_of_sel no_fault_def stat_rendered0)
  show ?thesis
    using getstl_same_steps_no_index [of "env_of no_fault compiler_rejects" body0 w0]
          getstl_same_steps_no_index [of "env_of no_fault (compiler_writes ''solid'')" body0 w0]
    by (simp add: render0_rejects render0_writes StlPath_distinct [symmetric] StlPath_inject
          w0_sel stl_file_path0 s)
qed

text \<open>
  C2 as stated fails: after a successful \<^verbatim>\<open>GetStl.post\<close> the index has no
  entry for the artifact, where \<^verbatim>\<open>RenderScad.post\<close> on the same request
  leaves one.
\<close>

theorem getstl_index_counterexample:
  "fst (GetStl_post (env_of no_fault (compiler_writes ''solid'')) body0 w0)
     = Returned (FileResponse ''solid'' ''application/octet-stream'' True (Some ''model.stl''))
   \<and> stl_cache (snd (GetStl_post (env_of no_fault (compiler_writes ''solid'')) body0 w0))
        stl0_name = None
   \<and> stl_cache (snd (RenderScad_post (env_of no_fault (compiler_writes ''solid'')) body0 w0))
        stl0_name = Some stl0_path"
  by (simp add: getstl0_writes render0_writes)

text \<open>
  C3, as the code has it.  The steps that make the workspace stand before
  the \<^verbatim>\<open>try\<close> block of both render handlers: \<^verbatim>\<open>os.makedirs\<close>,
  \<^verbatim>\<open>os.listdir\<close>, \<^verbatim>\<open>shutil.copy2\<close> for each library, the opening of
  the source file and the write into it.  Whichever of them fails first,
  \<^verbatim>\<open>RenderScad.post\<close> and \<^verbatim>\<open>GetStl.post\<close> raise its exception, return
  no reply, and leave the disk as the failed step left it.  A step that the
  operating system refuses fails with the error of the operating system
  (the copy of a library onto itself fails before it is read).
\<close>

theorem workspace_failure_raises:
  assumes "get_scad_code body = Inr code"
  shows "(\<forall>x. os_makedirs e (fs w) (model_dir e) = Inl x \<longrightarrow>
            RenderScad_post e body w = (Raised x, w) \<and> GetStl_post e body w = (Raised x, w))
       \<and> (\<forall>t1 x. os_makedirs e (fs w) (model_dir e) = Inr t1
              \<and> os_listdir e t1 LIBRARIES_DIR = Inl x \<longrightarrow>
            RenderScad_post e body w = (Raised x, w\<lparr>fs := t1\<rparr>)
            \<and> GetStl_post e body w = (Raised x, w\<lparr>fs := t1\<rparr>))
       \<and> (\<forall>t1 pre lib rest t2 x t3. os_makedirs e (fs w) (model_dir e) = Inr t1
              \<and> os_listdir e t1 LIBRARIES_DIR = Inr (pre @ lib # rest)
              \<and> copy_libraries e t1 (model_dir e) pre = (Inr (), t2)
              \<and> endswith lib ''.scad''
              \<and> copy2 e t2 (join LIBRARIES_DIR lib) (join (model_dir e) lib) = (Inl x, t3) \<longrightarrow>
            RenderScad_post e body w = (Raised x, w\<lparr>fs := t3\<rparr>)
            \<and> GetStl_post e body w = (Raised x, w\<lparr>fs := t3\<rparr>))
       \<and> (\<forall>t1 names t2 x. os_makedirs e (fs w) (model_dir e) = Inr t1
              \<and> os_listdir e t1 LIBRARIES_DIR = Inr names
              \<and> copy_libraries e t1 (model_dir e) names = (Inr (), t2)
              \<and> open_w e t2 (scad_file_path e) = Inl x \<longrightarrow>
            RenderScad_post e body w = (Raised x, w\<lparr>fs := t2\<rparr>)
            \<and> GetStl_post e body w = (Raised x, w\<lparr>fs := t2\<rparr>))
       \<and> (\<forall>t1 names t2 h t3 s x. os_makedirs e (fs w) (model_dir e) = Inr t1
              \<and> os_listdir e t1 LIBRARIES_DIR = Inr names
              \<and> copy_libraries e t1 (model_dir e) names = (Inr (), t2)
              \<and> open_w e t2 (scad_file_path e) = Inr (h, t3)
              \<and> code = JStr s
              \<and> fwrite e (scad_file_path e) h t3 s = Inl x \<longrightarrow>
            RenderScad_post e body w = (Raised x, w\<lparr>fs := t3\<rparr>)
            \<and> GetStl_post e body w = (Raised x, w\<lparr>fs := t3\<rparr>))
       \<and> (\<forall>t1 names t2 h t3. os_makedirs e (fs w) (model_dir e) = Inr t1
              \<and> os_listdir e t1 LIBRARIES_DIR = Inr names
              \<and> copy_libraries e t1 (model_dir e) names = (Inr (), t2)
              \<and> open_w e t2 (scad_file_path e) = Inr (h, t3)
              \<and> (\<forall>s. code \<noteq> JStr s) \<longrightarrow>
            RenderScad_post e body w = (Raised TypeError, w\<lparr>fs := t3\<rparr>)
            \<and> GetStl_post e body w = (Raised TypeError, w\<lparr>fs := t3\<rparr>))
       \<and> (\<forall>m. os_fault e (SysMakedirs (model_dir e)) = Some m \<longrightarrow>
            os_makedirs e (fs w) (model_dir e) = Inl (OSError m))
       \<and> (\<forall>t m. os_fault e (SysListdir LIBRARIES_DIR) = Some m \<longrightarrow>
            os_listdir e t LIBRARIES_DIR = Inl (OSError m))
       \<and> (\<forall>t src dst m. os_fault e (SysRead src) = Some m \<longrightarrow>
            copy2 e t src dst = (Inl (OSError m), t) \<or> copy2 e t src dst = (Inl SameFileError, t))
       \<and> (\<forall>t m. os_fault e (SysOpenW (scad_file_path e)) = Some m \<longrightarrow>
            open_w e t (scad_file_path e) = Inl (OSError m))
       \<and> (\<forall>t h s m. os_fault e (SysWrite (scad_file_path e)) = Some m \<longrightarrow>
            fwrite e (scad_file_path e) h t s = Inl (OSError m))"
proof -
  have c: "\<And>t1 pre lib rest t2 x t3.
      copy_libraries e t1 (model_dir e) pre = (Inr (), t2) \<Longrightarrow> endswith lib ''.scad'' \<Longrightarrow>
      copy2 e t2 (join LIBRARIES_DIR lib) (join (model_dir e) lib) = (Inl x, t3) \<Longrightarrow>
      copy_libraries e t1 (model_dir e) (pre @ lib # rest) = (Inl x, t3)"
    by (simp add: copy_libraries_append)
  show ?thesis
    using assms
    by (auto simp: RenderScad_post_def GetStl_post_def create_workspace_def c
          os_makedirs_def os_listdir_def copy2_def read_file_def open_w_def fwrite_def guard_def Let_def
          split: json.splits)
qed

text \<open>
  C3, for the download handler: at a full disk, where the model directory
  cannot be made, and at a library that may not be read, where the model
  directory stays behind.
\<close>

theorem workspace_failure_raises_witness:
  "GetStl_post (env_of disk_full compiler_silent) body0 w0
     = (Raised (OSError (''[Errno 28] No space left on device: ''
                          @ in_quotes (model_dir (env_of disk_full compiler_silent)))), w0)
   \<and> GetStl_post (env_of read_denied compiler_silent) body0 w0
     = (Raised (OSError (''[Errno 13] Permission denied: '' @ in_quotes ''/app/libraries/util.scad'')),
        w0\<lparr>fs := made0\<rparr>)"
proof -
  let ?e = "env_of read_denied compiler_silent"
  have a: "os_makedirs ?e (fs w0) (model_dir ?e) = Inr made0
           \<and> os_listdir ?e made0 LIBRARIES_DIR = Inr ([] @ ''util.scad'' # [])
           \<and> copy_libraries ?e made0 (model_dir ?e) [] = (Inr (), made0)
           \<and> endswith ''util.scad'' ''.scad''
           \<and> copy2 ?e made0 (join LIBRARIES_DIR ''util.scad'') (join (model_dir ?e) ''util.scad'')
               = (Inl (OSError (''[Errno 13] Permission denied: ''
                                 @ in_quotes ''/app/libraries/util.scad'')), made0)"
    by (simp add: eval_defs)
  have b: "os_fault (env_of disk_full compiler_silent)
             (SysMakedirs (model_dir (env_of disk_full compiler_silent)))
           = Some (''[Errno 28] No space left on device: ''
                    @ in_quotes (model_dir (env_of disk_full compiler_silent)))"
    by (simp add: env_of_sel disk_full_def)
  from workspace_failure_raises [OF body0_code, of "env_of disk_full compiler_silent" w0] b
  have c: "GetStl_post (env_of disk_full compiler_silent) body0 w0
     = (Raised (OSError (''[Errno 28] No space left on device: ''
                          @ in_quotes (model_dir (env_of disk_full compiler_silent)))), w0)"
    by simp
  note k = workspace_failure_raises [OF body0_code, of ?e w0, THEN conjunct2, THEN conjunct2,
      THEN conjunct1, rule_format, of made0 "[]" "''util.scad''" "[]" made0]
  from k a
  have d: "GetStl_post ?e body0 w0
     = (Raised (OSError (''[Errno 13] Permission denied: '' @ in_quotes ''/app/libraries/util.scad'')),
        w0\<lparr>fs := made0\<rparr>)"
    by simp
  from c d show ?thesis by simp
qed

text \<open>
  C3 as stated fails at each of the three causes it names: with no space
  for the model directory, with a library that may not be read and with no
  space for the text of the source file, \<^verbatim>\<open>RenderScad.post\<close> raises the
  error of the operating system; the caller gets no typed result.
\<close>

theorem workspace_failure_counterexample:
  "RenderScad_post (env_of disk_full compiler_silent) body0 w0
     = (Raised (OSError (''[Errno 28] No space left on device: ''
                          @ in_quotes (model_dir (env_of disk_full compiler_silent)))), w0)
   \<and> RenderScad_post (env_of read_denied compiler_silent) body0 w0
     = (Raised (OSError (''[Errno 13] Permission denied: '' @ in_quotes ''/app/libraries/util.scad'')),
        w0\<lparr>fs := made0\<rparr>)
   \<and> RenderScad_post (env_of (write_full scad0_path) compiler_silent) body0 w0
     = (Raised (OSError ''[Errno 28] No space left on device''), w0\<lparr>fs := opened0\<rparr>)"
  by (simp add: render0_disk_full render0_read_denied render0_write_full)

text \<open>
  C4, as the code has it.  Once the workspace is written, the reply of
  \<^verbatim>\<open>RenderScad.post\<close> is decided by what the compiler process did: an
  executable that is not found gives \<open>ToolUnavailable\<close>; an executable
  that is there but cannot be started gives the reply
  \<^verbatim>\<open>Unexpected error: ...\<close> with the text of the exception, and so does
  a compiler whose output is not text, whatever its exit code; an exit code
  other than 0 gives \<open>CompilationFailed\<close> with the captured standard
  error; exit code 0 with no output file gives \<open>OutputMissing\<close>; exit
  code 0 with the output file gives the reference to the artifact.
\<close>

theorem render_executor_classification:
  assumes "get_scad_code body = Inr code"
    and "create_workspace e (fs w) code = (Inr (), t1)"
  shows "fst (RenderScad_post e body w) = Returned
     (case openscad e t1 (openscad_args e) of
        NoSuchExecutable \<Rightarrow> ToolUnavailable
      | SpawnFailed m \<Rightarrow> UnexpectedError (str_exn e (OSError m))
      | Undecodable rc t2 \<Rightarrow> UnexpectedError (str_exn e UnicodeDecodeError)
      | Exited rc out err t2 \<Rightarrow>
          if rc \<noteq> 0 then CompilationFailed err
          else if exists t2 (stl_file_path e) then StlPath (basename (stl_file_path e))
          else OutputMissing)"
  using assms
  by (simp add: RenderScad_post_def subprocess_run_def split: proc_result.splits)

text \<open>
  C4, at a compiler that answers \<^verbatim>\<open>ERROR: syntax error\<close> with exit code 1
  and at one that is not installed.
\<close>

theorem render_executor_classification_witness:
  "fst (RenderScad_post (env_of no_fault compiler_rejects) body0 w0)
     = Returned (CompilationFailed ''ERROR: syntax error'')
   \<and> fst (RenderScad_post (env_of no_fault compiler_absent) body0 w0)
     = Returned ToolUnavailable"
  using render_executor_classification [OF body0_code stage0_w0 [of compiler_rejects]]
        render_executor_classification [OF body0_code stage0_w0 [of compiler_absent]]
  by (simp add: env_of_sel compiler_rejects_def compiler_absent_def)

text \<open>
  C4 as stated fails twice.  An executable that is present but may not be
  run (\<^verbatim>\<open>subprocess.run\<close> raises \<open>PermissionError\<close>) is answered by
  the last \<^verbatim>\<open>except\<close> clause, not with \<open>ToolUnavailable\<close>.  A
  compiler that exits with 0 and writes the output file, but prints bytes
  that are not text, is answered by the same clause, not with the
  reference.
\<close>

theorem not_runnable_counterexample:
  "fst (RenderScad_post (env_of no_fault compiler_denied) body0 w0)
     = Returned (UnexpectedError (''[Errno 13] Permission denied: ''
                                   @ in_quotes ''/usr/local/bin/openscad''))
   \<and> fst (RenderScad_post (env_of no_fault compiler_denied) body0 w0)
     \<noteq> Returned ToolUnavailable
   \<and> openscad (env_of no_fault (compiler_garbled ''solid'')) staged0
        (openscad_args (env_of no_fault (compiler_garbled ''solid'')))
     = Undecodable 0 (rendered0 ''solid'')
   \<and> exists (rendered0 ''solid'') (stl_file_path (env_of no_fault (compiler_garbled ''solid'')))
   \<and> RenderScad_post (env_of no_fault (compiler_garbled ''solid'')) body0 w0
     = (Returned (UnexpectedError (str0 UnicodeDecodeError)), w0\<lparr>fs := rendered0 ''solid''\<rparr>)"
  using garbled0 [of "''solid''" no_fault "compiler_garbled ''solid''"]
  by (simp add: RenderScad_post_def body0_code stage0_w0 subprocess_run_def env_of_sel
        compiler_denied_def openscad_args_def OPENSCAD_PATH_def response_defs stl_file_path0
        exists_def stat_rendered0)

text \<open>
  C10.  A request body that is JSON but is not an object with the key
  \<^verbatim>\<open>scadCode\<close> makes \<^verbatim>\<open>RenderScad.post\<close> and \<^verbatim>\<open>GetStl.post\<close> raise
  (\<open>KeyError\<close> for an object without the key, \<open>TypeError\<close> for any
  other value): no reply is returned, and the state is the one before the
  request, so no workspace was created.
\<close>

theorem missing_scadCode_raises:
  assumes "body = Some data"
    and "\<forall>kv. data = JObj kv \<longrightarrow> map_of kv ''scadCode'' = None"
  shows "\<exists>x. (x = KeyError ''scadCode'' \<or> x = TypeError)
           \<and> RenderScad_post e body w = (Raised x, w)
           \<and> GetStl_post e body w = (Raised x, w)"
  using assms
  by (cases data) (auto simp: RenderScad_post_def GetStl_post_def get_scad_code_def)

text \<open>
  C10, at an object with another key and at an array, on the disk after
  start-up.
\<close>

theorem missing_scadCode_raises_witness:
  "RenderScad_post (env_of no_fault compiler_silent)
       (Some (JObj [(''code'', JStr ''cube(1);'')])) w0
     = (Raised (KeyError ''scadCode''), w0)
   \<and> GetStl_post (env_of no_fault compiler_silent) (Some (JArr [JStr ''cube(1);''])) w0
     = (Raised TypeError, w0)"
  using missing_scadCode_raises [of "Some (JObj [(''code'', JStr ''cube(1);'')])"
          "JObj [(''code'', JStr ''cube(1);'')]" "env_of no_fault compiler_silent" w0]
        missing_scadCode_raises [of "Some (JArr [JStr ''cube(1);''])"
          "JArr [JStr ''cube(1);'']" "env_of no_fault compiler_silent" w0]
  by (simp add: RenderScad_post_def GetStl_post_def get_scad_code_def)

section \<open>Fetching\<close>

text \<open>
  C5, as the code has it.  For a name that passes validation,
  \<^verbatim>\<open>View3D.get\<close> takes the path (1) from the index when the name is a
  key, (2) otherwise from the first directory of the recursive walk of the
  models directory that lists the name among its files, (3) otherwise it is
  the name joined to the models directory, which is probed as it stands.
  The reply is \<open>NotFound\<close> exactly when that path does not exist;
  otherwise it is what sending the path gives: a regular file that can be
  read is sent, a directory is answered with the error of the last
  \<^verbatim>\<open>except\<close> clause.  So with an empty index, on a well-formed disk and
  with reads permitted, a file of that name anywhere under the models
  directory is served; and the handler never raises.
\<close>

theorem fetch_resolution_order:
  assumes "f \<noteq> []" and "endswith f ''.stl''"
  shows "(\<forall>p. stl_cache w f = Some p \<longrightarrow> locate_stl w f = p)
       \<and> (\<forall>root dirs files. stl_cache w f = None
            \<and> find (\<lambda>(root, dirs, files). f \<in> set files) (os_walk (fs w) MODELS_DIR)
                = Some (root, dirs, files)
            \<longrightarrow> locate_stl w f = join root f)
       \<and> (stl_cache w f = None
            \<and> find (\<lambda>(root, dirs, files). f \<in> set files) (os_walk (fs w) MODELS_DIR) = None
            \<longrightarrow> locate_stl w f = join MODELS_DIR f)
       \<and> (fst (View3D_get e (Some f) w) = Returned NotFound
            \<longleftrightarrow> \<not> exists (fs w) (locate_stl w f))
       \<and> (\<not> exists (fs w) (locate_stl w f) \<longrightarrow> View3D_get e (Some f) w = (Returned NotFound, w))
       \<and> (\<forall>n. stat (fs w) (locate_stl w f) = Some n \<longrightarrow>
            View3D_get e (Some f) w =
              (case read_file e (fs w) (locate_stl w f) of
                 Inl x \<Rightarrow> (Returned (ServeError (str_exn e x)), w)
               | Inr c \<Rightarrow> (Returned (FileResponse c ''model/stl'' False None), w)))
       \<and> (\<forall>c. stat (fs w) (locate_stl w f) = Some (File c)
              \<and> os_fault e (SysRead (locate_stl w f)) = None
            \<longrightarrow> View3D_get e (Some f) w = (Returned (FileResponse c ''model/stl'' False None), w))
       \<and> (\<forall>es. stat (fs w) (locate_stl w f) = Some (Dir es)
              \<and> os_fault e (SysRead (locate_stl w f)) = None
            \<longrightarrow> View3D_get e (Some f) w
                  = (Returned (ServeError (str_exn e IsADirectoryError)), w))
       \<and> (\<forall>mcs ds c. wf_node (fs w) \<and> stl_cache w = Map.empty
              \<and> realpath (fs w) MODELS_DIR = Some mcs
              \<and> lookup (fs w) (mcs @ ds @ [f]) = Some (File c)
              \<and> (\<forall>p. os_fault e (SysRead p) = None)
            \<longrightarrow> (\<exists>ds' c'. lookup (fs w) (mcs @ ds' @ [f]) = Some (File c')
                   \<and> View3D_get e (Some f) w
                       = (Returned (FileResponse c' ''model/stl'' False None), w)))
       \<and> (\<forall>x. fst (View3D_get e (Some f) w) \<noteq> Raised x)"
proof -
  have a: "\<forall>p. stl_cache w f = Some p \<longrightarrow> locate_stl w f = p"
    by (simp add: locate_stl_def)
  have b: "\<forall>root dirs files. stl_cache w f = None
            \<and> find (\<lambda>(root, dirs, files). f \<in> set files) (os_walk (fs w) MODELS_DIR)
                = Some (root, dirs, files)
            \<longrightarrow> locate_stl w f = join root f"
    by (simp add: locate_stl_def)
  have c: "stl_cache w f = None
            \<and> find (\<lambda>(root, dirs, files). f \<in> set files) (os_walk (fs w) MODELS_DIR) = None
            \<longrightarrow> locate_stl w f = join MODELS_DIR f"
    by (simp add: locate_stl_def)
  have i: "fst (View3D_get e (Some f) w) = Returned NotFound
            \<longleftrightarrow> \<not> exists (fs w) (locate_stl w f)"
    using view3d_notfound_iff [OF assms] .
  have d: "\<not> exists (fs w) (locate_stl w f) \<longrightarrow> View3D_get e (Some f) w = (Returned NotFound, w)"
    using assms by (simp add: View3D_get_def)
  have x: "\<forall>n. stat (fs w) (locate_stl w f) = Some n \<longrightarrow>
            View3D_get e (Some f) w =
              (case read_file e (fs w) (locate_stl w f) of
                 Inl x \<Rightarrow> (Returned (ServeError (str_exn e x)), w)
               | Inr c \<Rightarrow> (Returned (FileResponse c ''model/stl'' False None), w))"
    using view3d_reply [OF assms] by blast
  have s: "\<forall>c. stat (fs w) (locate_stl w f) = Some (File c)
              \<and> os_fault e (SysRead (locate_stl w f)) = None
            \<longrightarrow> View3D_get e (Some f) w = (Returned (FileResponse c ''model/stl'' False None), w)"
    using assms serve_file by blast
  have g: "\<forall>es. stat (fs w) (locate_stl w f) = Some (Dir es)
              \<and> os_fault e (SysRead (locate_stl w f)) = None
            \<longrightarrow> View3D_get e (Some f) w
                  = (Returned (ServeError (str_exn e IsADirectoryError)), w)"
    using view3d_reply [OF assms] by (simp add: read_file_def guard_def)
  have r: "\<forall>mcs ds c. wf_node (fs w) \<and> stl_cache w = Map.empty
              \<and> realpath (fs w) MODELS_DIR = Some mcs
              \<and> lookup (fs w) (mcs @ ds @ [f]) = Some (File c)
              \<and> (\<forall>p. os_fault e (SysRead p) = None)
            \<longrightarrow> (\<exists>ds' c'. lookup (fs w) (mcs @ ds' @ [f]) = Some (File c')
                   \<and> View3D_get e (Some f) w
                       = (Returned (FileResponse c' ''model/stl'' False None), w))"
  proof (intro allI impI, elim conjE)
    fix mcs ds c
    assume h: "wf_node (fs w)" "stl_cache w = Map.empty" "realpath (fs w) MODELS_DIR = Some mcs"
      "lookup (fs w) (mcs @ ds @ [f]) = Some (File c)" "\<forall>p. os_fault e (SysRead p) = None"
    from h(2) have miss: "stl_cache w f = None" by simp
    from scan_finds_file [OF h(1) miss h(3) h(4)] obtain ds' c' where
      k: "realpath (fs w) (locate_stl w f) = Some (mcs @ ds' @ [f])"
         "lookup (fs w) (mcs @ ds' @ [f]) = Some (File c')" by blast
    then have "stat (fs w) (locate_stl w f) = Some (File c')" by (simp add: stat_def)
    with serve_file [OF assms this] h(5) k(2)
    show "\<exists>ds' c'. lookup (fs w) (mcs @ ds' @ [f]) = Some (File c')
            \<and> View3D_get e (Some f) w = (Returned (FileResponse c' ''model/stl'' False None), w)"
      by blast
  qed
  have v: "\<forall>x. fst (View3D_get e (Some f) w) \<noteq> Raised x"
    using view3d_never_raises by blast
  from a b c i d x s g r v show ?thesis by blast
qed

text \<open>
  C5, on a disk with one artifact and an empty index: the artifact is found
  by the walk and sent, a name that is nowhere gets \<open>NotFound\<close>.
\<close>

theorem fetch_resolution_order_witness:
  "locate_stl w1 ''a.stl'' = ''/tmp/openscad_models/j1/a.stl''
   \<and> View3D_get (env_of no_fault compiler_silent) (Some ''a.stl'') w1
       = (Returned (FileResponse ''solid a'' ''model/stl'' False None), w1)
   \<and> View3D_get (env_of no_fault compiler_silent) (Some ''b.stl'') w1 = (Returned NotFound, w1)"
proof -
  let ?e = "env_of no_fault compiler_silent"
  have l: "stl_cache w1 ''a.stl'' = None
           \<and> find (\<lambda>(root, dirs, files). ''a.stl'' \<in> set files) (os_walk (fs w1) MODELS_DIR)
               = Some (''/tmp/openscad_models/j1'', [], [''a.stl''])
           \<and> join ''/tmp/openscad_models/j1'' ''a.stl'' = ''/tmp/openscad_models/j1/a.stl''"
    by (simp add: w1_sel walk_fs1 join_def)
  have h: "stat (fs w1) ''/tmp/openscad_models/j1/a.stl'' = Some (File ''solid a'')
           \<and> os_fault ?e (SysRead ''/tmp/openscad_models/j1/a.stl'') = None"
    by (simp add: w1_sel fs1_def fs_defs env_of_sel no_fault_def)
  have g: "\<not> exists (fs w1) (locate_stl w1 ''b.stl'')"
    by (simp add: locate_stl_def w1_sel walk_fs1 MODELS_DIR_def join_def fs1_def fs_defs)
  note k = fetch_resolution_order [OF valid_stl_names(1,2), of w1 ?e]
  note k2 = k [THEN conjunct2, THEN conjunct1, rule_format,
      of "''/tmp/openscad_models/j1''" "[]" "[''a.stl'']"]
  note k7 = k [THEN conjunct2, THEN conjunct2, THEN conjunct2, THEN conjunct2, THEN conjunct2,
      THEN conjunct2, THEN conjunct1, rule_format, of "''solid a''"]
  note n5 = fetch_resolution_order [OF valid_stl_names(3,4), of w1 ?e, THEN conjunct2,
      THEN conjunct2, THEN conjunct2, THEN conjunct2, THEN conjunct1, rule_format]
  from k2 l have a: "locate_stl w1 ''a.stl'' = ''/tmp/openscad_models/j1/a.stl''"
    by simp
  from k7 a h have b: "View3D_get ?e (Some ''a.stl'') w1
       = (Returned (FileResponse ''solid a'' ''model/stl'' False None), w1)"
    by simp
  from n5 [OF g] a b show ?thesis by simp
qed

text \<open>
  C5 as stated fails at the third step.  The name \<^verbatim>\<open>../secret.stl\<close> is
  not in the index and no file of the walk has it, yet the file beside the
  models directory is sent.  The name \<^verbatim>\<open>d.stl\<close> is not in the index and
  no file of the walk has it (it names a directory), and the reply has
  status 500, not \<open>NotFound\<close>.
\<close>

theorem fetch_probe_counterexample:
  "stl_cache w1 ''../secret.stl'' = None
   \<and> find (\<lambda>(root, dirs, files). ''../secret.stl'' \<in> set files) (os_walk (fs w1) MODELS_DIR)
       = None
   \<and> View3D_get (env_of no_fault compiler_silent) (Some ''../secret.stl'') w1
       = (Returned (FileResponse ''private'' ''model/stl'' False None), w1)
   \<and> stl_cache w1 ''d.stl'' = None
   \<and> find (\<lambda>(root, dirs, files). ''d.stl'' \<in> set files) (os_walk (fs w1) MODELS_DIR) = None
   \<and> stat (fs w1) (join MODELS_DIR ''d.stl'') = Some (Dir [])
   \<and> View3D_get (env_of no_fault compiler_silent) (Some ''d.stl'') w1
       = (Returned (ServeError (''[Errno 21] Is a directory: ''
                                 @ in_quotes ''/tmp/openscad_models/d.stl'')), w1)
   \<and> ServeError (''[Errno 21] Is a directory: '' @ in_quotes ''/tmp/openscad_models/d.stl'')
       \<noteq> NotFound"
  by (simp add: w1_sel walk_fs1 View3D_get_def locate_stl_def valid_stl_names MODELS_DIR_def
        join_def fs1_def fs_defs send_file_def getsize_def read_file_def guard_def env_of_sel
        no_fault_def NotFound_distinct)




text \<open>
  C9.  \<^verbatim>\<open>View3D.get\<close> refuses exactly the missing, the empty and the
  names that do not end in \<^verbatim>\<open>.stl\<close>.  A name that passes and has a
  separator in it is in no listing of the walk, so, when it is not a key of
  the index, its path is the name joined to the models directory as it
  stands (the name itself when it is absolute, otherwise the models
  directory, a separator and the name), and the reply is decided by that
  path alone: \<open>NotFound\<close> when nothing is there, otherwise what sending
  it gives.  For the name \<^verbatim>\<open>../secret.stl\<close> on the disk \<open>fs1\<close> the
  path resolves to the file beside the models directory, outside of it, and
  that file is sent.
\<close>

theorem fetch_unsanitized:
  "(fst (View3D_get e file w) = Returned InvalidFileParameter
      \<longleftrightarrow> (file = None \<or> file = Some [] \<or> (\<exists>f. file = Some f \<and> \<not> endswith f ''.stl'')))
   \<and> (\<forall>f. file = Some f \<and> f \<noteq> [] \<and> endswith f ''.stl'' \<and> CHR ''/'' \<in> set f
          \<and> stl_cache w f = None \<and> wf_node (fs w)
        \<longrightarrow> locate_stl w f = join MODELS_DIR f
            \<and> join MODELS_DIR f = (if hd f = CHR ''/'' then f else MODELS_DIR @ ''/'' @ f)
            \<and> View3D_get e file w =
                (case stat (fs w) (join MODELS_DIR f) of
                   None \<Rightarrow> (Returned NotFound, w)
                 | Some n \<Rightarrow>
                     (case read_file e (fs w) (join MODELS_DIR f) of
                        Inl x \<Rightarrow> (Returned (ServeError (str_exn e x)), w)
                      | Inr c \<Rightarrow> (Returned (FileResponse c ''model/stl'' False None), w))))
   \<and> stl_cache w1 ''../secret.stl'' = None
   \<and> realpath (fs w1) MODELS_DIR = Some [''tmp'', ''openscad_models'']
   \<and> realpath (fs w1) (join MODELS_DIR ''../secret.stl'') = Some [''tmp'', ''secret.stl'']
   \<and> lookup (fs w1) [''tmp'', ''secret.stl''] = Some (File ''private'')
   \<and> \<not> prefix [''tmp'', ''openscad_models''] [''tmp'', ''secret.stl'']
   \<and> View3D_get (env_of no_fault compiler_silent) (Some ''../secret.stl'') w1
       = (Returned (FileResponse ''private'' ''model/stl'' False None), w1)"
proof -
  have b: "\<forall>f. file = Some f \<and> f \<noteq> [] \<and> endswith f ''.stl'' \<and> CHR ''/'' \<in> set f
          \<and> stl_cache w f = None \<and> wf_node (fs w)
        \<longrightarrow> locate_stl w f = join MODELS_DIR f
            \<and> join MODELS_DIR f = (if hd f = CHR ''/'' then f else MODELS_DIR @ ''/'' @ f)
            \<and> View3D_get e file w =
                (case stat (fs w) (join MODELS_DIR f) of
                   None \<Rightarrow> (Returned NotFound, w)
                 | Some n \<Rightarrow>
                     (case read_file e (fs w) (join MODELS_DIR f) of
                        Inl x \<Rightarrow> (Returned (ServeError (str_exn e x)), w)
                      | Inr c \<Rightarrow> (Returned (FileResponse c ''model/stl'' False None), w)))"
  proof (intro allI impI, elim conjE)
    fix f
    assume h: "file = Some f" "f \<noteq> []" "endswith f ''.stl''" "CHR ''/'' \<in> set f"
      "stl_cache w f = None" "wf_node (fs w)"
    have l: "locate_stl w f = join MODELS_DIR f"
      using scan_misses_separator [OF h(6) h(4)] h(5) by (simp add: locate_stl_def)
    have v: "View3D_get e file w =
                (case stat (fs w) (join MODELS_DIR f) of
                   None \<Rightarrow> (Returned NotFound, w)
                 | Some n \<Rightarrow>
                     (case read_file e (fs w) (join MODELS_DIR f) of
                        Inl x \<Rightarrow> (Returned (ServeError (str_exn e x)), w)
                      | Inr c \<Rightarrow> (Returned (FileResponse c ''model/stl'' False None), w)))"
    proof (cases "stat (fs w) (join MODELS_DIR f)")
      case None
      then show ?thesis using h(1-3) l by (simp add: View3D_get_def exists_def)
    next
      case (Some n)
      then show ?thesis using view3d_reply [OF h(2,3), of w n e] l h(1) by simp
    qed
    from l v join_MODELS_DIR [OF h(2)]
    show "locate_stl w f = join MODELS_DIR f
            \<and> join MODELS_DIR f = (if hd f = CHR ''/'' then f else MODELS_DIR @ ''/'' @ f)
            \<and> View3D_get e file w =
                (case stat (fs w) (join MODELS_DIR f) of
                   None \<Rightarrow> (Returned NotFound, w)
                 | Some n \<Rightarrow>
                     (case read_file e (fs w) (join MODELS_DIR f) of
                        Inl x \<Rightarrow> (Returned (ServeError (str_exn e x)), w)
                      | Inr c \<Rightarrow> (Returned (FileResponse c ''model/stl'' False None), w)))"
      by blast
  qed
  have c: "stl_cache w1 ''../secret.stl'' = None
   \<and> realpath (fs w1) MODELS_DIR = Some [''tmp'', ''openscad_models'']
   \<and> realpath (fs w1) (join MODELS_DIR ''../secret.stl'') = Some [''tmp'', ''secret.stl'']
   \<and> lookup (fs w1) [''tmp'', ''secret.stl''] = Some (File ''private'')
   \<and> \<not> prefix [''tmp'', ''openscad_models''] [''tmp'', ''secret.stl'']
   \<and> View3D_get (env_of no_fault compiler_silent) (Some ''../secret.stl'') w1
       = (Returned (FileResponse ''private'' ''model/stl'' False None), w1)"
    by (simp add: eval_defs)
  from view3d_invalid_iff [of e "file" w] b c show ?thesis by blast
qed

text \<open>
  C9, at the name \<^verbatim>\<open>../secret.stl\<close>, which leads to the file beside the
  models directory, and at a name with another extension.
\<close>

theorem fetch_unsanitized_witness:
  "locate_stl w1 ''../secret.stl'' = ''/tmp/openscad_models/../secret.stl''
   \<and> View3D_get (env_of no_fault compiler_silent) (Some ''../secret.stl'') w1
       = (Returned (FileResponse ''private'' ''model/stl'' False None), w1)
   \<and> fst (View3D_get (env_of no_fault compiler_silent) (Some ''secret.txt'') w1)
       = Returned InvalidFileParameter"
proof -
  let ?e = "env_of no_fault compiler_silent"
  have h: "''../secret.stl'' \<noteq> [] \<and> endswith ''../secret.stl'' ''.stl''
           \<and> CHR ''/'' \<in> set ''../secret.stl'' \<and> stl_cache w1 ''../secret.stl'' = None
           \<and> wf_node (fs w1)"
    by (simp add: valid_stl_names w1_sel wf_fs1)
  have j: "join MODELS_DIR ''../secret.stl'' = ''/tmp/openscad_models/../secret.stl''"
    by (simp add: MODELS_DIR_def join_def)
  have s: "stat (fs w1) ''/tmp/openscad_models/../secret.stl'' = Some (File ''private'')
           \<and> read_file ?e (fs w1) ''/tmp/openscad_models/../secret.stl'' = Inr ''private''"
    by (simp add: w1_sel fs1_def fs_defs read_file_def guard_def env_of_sel no_fault_def)
  have t: "\<not> endswith ''secret.txt'' ''.stl''"
    by (simp add: endswith_def)
  note k = fetch_unsanitized [of ?e "Some ''../secret.stl''" w1, THEN conjunct2, THEN conjunct1,
      rule_format, of "''../secret.stl''"]
  from k h j s have a: "locate_stl w1 ''../secret.stl'' = ''/tmp/openscad_models/../secret.stl''
     \<and> View3D_get ?e (Some ''../secret.stl'') w1
         = (Returned (FileResponse ''private'' ''model/stl'' False None), w1)"
    by simp
  from fetch_unsanitized [of ?e "Some ''secret.txt''" w1, THEN conjunct1] t
  have b: "fst (View3D_get ?e (Some ''secret.txt'') w1) = Returned InvalidFileParameter"
    by simp
  from a b show ?thesis by simp
qed

section \<open>Registering a library\<close>

text \<open>
  C7, as the code has it.  An upload whose file name is empty or does not
  end in \<^verbatim>\<open>.scad\<close> is answered with status 400 (\<open>InvalidInput\<close>) and
  the state, so also the library pool, is unchanged.  Otherwise the target
  is the file name joined to the library directory by \<^verbatim>\<open>os.path.join\<close>:
  the entry of that name in the pool for a plain name, the name itself for
  an absolute one.  When the target resolves, is not a directory and the
  operating system permits opening and writing it, the reply is the
  success message and the target holds the content, whether or not a file
  was there before.  When the write is refused, the reply is the upload
  error with the text of the exception and the target is left empty; when
  the target does not resolve, is a directory or may not be opened, the
  reply is the upload error and the state is unchanged.
\<close>

theorem register_library:
  assumes "file = Some (name, content)"
  shows "(name = [] \<longrightarrow>
            InvalidInput NoFileSelected
            \<and> UploadLibrary_post e file w = (Returned NoFileSelected, w))
       \<and> (name \<noteq> [] \<and> \<not> endswith name ''.scad'' \<longrightarrow>
            InvalidInput OnlyScadAllowed
            \<and> UploadLibrary_post e file w = (Returned OnlyScadAllowed, w))
       \<and> (\<forall>cs. name \<noteq> [] \<and> endswith name ''.scad''
              \<and> realpath (fs w) (join LIBRARIES_DIR name) = Some cs
              \<and> \<not> is_dir (lookup (fs w) cs)
              \<and> os_fault e (SysOpenW (join LIBRARIES_DIR name)) = None
              \<and> os_fault e (SysWrite (join LIBRARIES_DIR name)) = None
            \<longrightarrow> (\<exists>t. UploadLibrary_post e file w = (Returned (UploadOk name), w\<lparr>fs := t\<rparr>)
                     \<and> realpath t (join LIBRARIES_DIR name) = Some cs
                     \<and> lookup t cs = Some (File content)))
       \<and> (\<forall>cs m. name \<noteq> [] \<and> endswith name ''.scad''
              \<and> realpath (fs w) (join LIBRARIES_DIR name) = Some cs
              \<and> \<not> is_dir (lookup (fs w) cs)
              \<and> os_fault e (SysOpenW (join LIBRARIES_DIR name)) = None
              \<and> os_fault e (SysWrite (join LIBRARIES_DIR name)) = Some m
            \<longrightarrow> (\<exists>t. UploadLibrary_post e file w
                       = (Returned (UploadError (str_exn e (OSError m))), w\<lparr>fs := t\<rparr>)
                     \<and> realpath t (join LIBRARIES_DIR name) = Some cs
                     \<and> lookup t cs = Some (File [])))
       \<and> (\<forall>pcs. valid_name name \<and> realpath (fs w) LIBRARIES_DIR = Some pcs
              \<and> is_dir (lookup (fs w) pcs)
            \<longrightarrow> realpath (fs w) (join LIBRARIES_DIR name) = Some (pcs @ [name]))
       \<and> (name \<noteq> [] \<and> hd name = CHR ''/'' \<longrightarrow> join LIBRARIES_DIR name = name)
       \<and> (name \<noteq> [] \<and> endswith name ''.scad''
              \<and> os_fault e (SysOpenW (join LIBRARIES_DIR name)) = None
              \<and> realpath (fs w) (join LIBRARIES_DIR name) = None
            \<longrightarrow> UploadLibrary_post e file w
                  = (Returned (UploadError (str_exn e (no_such (fs w) (join LIBRARIES_DIR name)))), w))
       \<and> (\<forall>cs. name \<noteq> [] \<and> endswith name ''.scad''
              \<and> os_fault e (SysOpenW (join LIBRARIES_DIR name)) = None
              \<and> realpath (fs w) (join LIBRARIES_DIR name) = Some cs
              \<and> is_dir (lookup (fs w) cs)
            \<longrightarrow> UploadLibrary_post e file w
                  = (Returned (UploadError (str_exn e IsADirectoryError)), w))
       \<and> (\<forall>m. name \<noteq> [] \<and> endswith name ''.scad''
              \<and> os_fault e (SysOpenW (join LIBRARIES_DIR name)) = Some m
            \<longrightarrow> UploadLibrary_post e file w
                  = (Returned (UploadError (str_exn e (OSError m))), w))"
proof -
  have a: "name = [] \<longrightarrow>
            InvalidInput NoFileSelected
            \<and> UploadLibrary_post e file w = (Returned NoFileSelected, w)"
    using assms by (simp add: UploadLibrary_post_def InvalidInput_replies)
  have b: "name \<noteq> [] \<and> \<not> endswith name ''.scad'' \<longrightarrow>
            InvalidInput OnlyScadAllowed
            \<and> UploadLibrary_post e file w = (Returned OnlyScadAllowed, w)"
    using assms by (simp add: UploadLibrary_post_def InvalidInput_replies)
  have c: "\<forall>cs. name \<noteq> [] \<and> endswith name ''.scad''
              \<and> realpath (fs w) (join LIBRARIES_DIR name) = Some cs
              \<and> \<not> is_dir (lookup (fs w) cs)
              \<and> os_fault e (SysOpenW (join LIBRARIES_DIR name)) = None
              \<and> os_fault e (SysWrite (join LIBRARIES_DIR name)) = None
            \<longrightarrow> (\<exists>t. UploadLibrary_post e file w = (Returned (UploadOk name), w\<lparr>fs := t\<rparr>)
                     \<and> realpath t (join LIBRARIES_DIR name) = Some cs
                     \<and> lookup t cs = Some (File content))"
  proof (intro allI impI, elim conjE)
    fix cs
    assume h: "name \<noteq> []" "endswith name ''.scad''"
      "realpath (fs w) (join LIBRARIES_DIR name) = Some cs" "\<not> is_dir (lookup (fs w) cs)"
      "os_fault e (SysOpenW (join LIBRARIES_DIR name)) = None"
      "os_fault e (SysWrite (join LIBRARIES_DIR name)) = None"
    from write_file_ok [OF h(3-6), of content] obtain t where
      "write_file e (fs w) (join LIBRARIES_DIR name) content = (Inr (), t)"
      "realpath t (join LIBRARIES_DIR name) = Some cs" "lookup t cs = Some (File content)"
      by blast
    then show "\<exists>t. UploadLibrary_post e file w = (Returned (UploadOk name), w\<lparr>fs := t\<rparr>)
                 \<and> realpath t (join LIBRARIES_DIR name) = Some cs
                 \<and> lookup t cs = Some (File content)"
      using assms h(1,2) by (intro exI [of _ t]) (simp add: UploadLibrary_post_def)
  qed
  have c2: "\<forall>cs m. name \<noteq> [] \<and> endswith name ''.scad''
              \<and> realpath (fs w) (join LIBRARIES_DIR name) = Some cs
              \<and> \<not> is_dir (lookup (fs w) cs)
              \<and> os_fault e (SysOpenW (join LIBRARIES_DIR name)) = None
              \<and> os_fault e (SysWrite (join LIBRARIES_DIR name)) = Some m
            \<longrightarrow> (\<exists>t. UploadLibrary_post e file w
                       = (Returned (UploadError (str_exn e (OSError m))), w\<lparr>fs := t\<rparr>)
                     \<and> realpath t (join LIBRARIES_DIR name) = Some cs
                     \<and> lookup t cs = Some (File []))"
  proof (intro allI impI, elim conjE)
    fix cs m
    assume h: "name \<noteq> []" "endswith name ''.scad''"
      "realpath (fs w) (join LIBRARIES_DIR name) = Some cs" "\<not> is_dir (lookup (fs w) cs)"
      "os_fault e (SysOpenW (join LIBRARIES_DIR name)) = None"
      "os_fault e (SysWrite (join LIBRARIES_DIR name)) = Some m"
    from write_file_truncates [OF h(3-6), of content] obtain t where
      "write_file e (fs w) (join LIBRARIES_DIR name) content = (Inl (OSError m), t)"
      "realpath t (join LIBRARIES_DIR name) = Some cs" "lookup t cs = Some (File [])"
      by blast
    then show "\<exists>t. UploadLibrary_post e file w
                   = (Returned (UploadError (str_exn e (OSError m))), w\<lparr>fs := t\<rparr>)
                 \<and> realpath t (join LIBRARIES_DIR name) = Some cs
                 \<and> lookup t cs = Some (File [])"
      using assms h(1,2) by (intro exI [of _ t]) (simp add: UploadLibrary_post_def)
  qed
  have d: "\<forall>pcs. valid_name name \<and> realpath (fs w) LIBRARIES_DIR = Some pcs
              \<and> is_dir (lookup (fs w) pcs)
            \<longrightarrow> realpath (fs w) (join LIBRARIES_DIR name) = Some (pcs @ [name])"
  proof (intro allI impI, elim conjE)
    fix pcs
    assume h: "valid_name name" "realpath (fs w) LIBRARIES_DIR = Some pcs"
      "is_dir (lookup (fs w) pcs)"
    from h(3) obtain es where "lookup (fs w) pcs = Some (Dir es)"
      by (cases "lookup (fs w) pcs" rule: is_dir.cases) auto
    from realpath_child [OF h(2) this h(1) LIBRARIES_DIR_shape]
    show "realpath (fs w) (join LIBRARIES_DIR name) = Some (pcs @ [name])" .
  qed
  have j: "name \<noteq> [] \<and> hd name = CHR ''/'' \<longrightarrow> join LIBRARIES_DIR name = name"
    by (simp add: join_def)
  have f1: "name \<noteq> [] \<and> endswith name ''.scad''
              \<and> os_fault e (SysOpenW (join LIBRARIES_DIR name)) = None
              \<and> realpath (fs w) (join LIBRARIES_DIR name) = None
            \<longrightarrow> UploadLibrary_post e file w
                  = (Returned (UploadError (str_exn e (no_such (fs w) (join LIBRARIES_DIR name)))), w)"
    using assms by (simp add: UploadLibrary_post_def write_file_def open_w_def guard_def)
  have f2: "\<forall>cs. name \<noteq> [] \<and> endswith name ''.scad''
              \<and> os_fault e (SysOpenW (join LIBRARIES_DIR name)) = None
              \<and> realpath (fs w) (join LIBRARIES_DIR name) = Some cs
              \<and> is_dir (lookup (fs w) cs)
            \<longrightarrow> UploadLibrary_post e file w
                  = (Returned (UploadError (str_exn e IsADirectoryError)), w)"
    using assms by (simp add: UploadLibrary_post_def write_file_def open_w_def guard_def)
  have f3: "\<forall>m. name \<noteq> [] \<and> endswith name ''.scad''
              \<and> os_fault e (SysOpenW (join LIBRARIES_DIR name)) = Some m
            \<longrightarrow> UploadLibrary_post e file w
                  = (Returned (UploadError (str_exn e (OSError m))), w)"
    using assms by (simp add: UploadLibrary_post_def write_file_def open_w_def guard_def)
  from a b c c2 d j f1 f2 f3 show ?thesis by blast
qed

text \<open>
  C7, on the disk after start-up: a text file is refused, the library
  \<^verbatim>\<open>util.scad\<close> is overwritten and the library \<^verbatim>\<open>gear.scad\<close> is
  created.
\<close>

theorem register_library_witness:
  "UploadLibrary_post (env_of no_fault compiler_silent) (Some (''notes.txt'', ''x'')) w0
     = (Returned OnlyScadAllowed, w0)
   \<and> fst (UploadLibrary_post (env_of no_fault compiler_silent)
            (Some (''util.scad'', ''module u(){cube(2);}'')) w0) = Returned (UploadOk ''util.scad'')
   \<and> lookup (fs (snd (UploadLibrary_post (env_of no_fault compiler_silent)
                       (Some (''util.scad'', ''module u(){cube(2);}'')) w0)))
        [''app'', ''libraries'', ''util.scad''] = Some (File ''module u(){cube(2);}'')
   \<and> fst (UploadLibrary_post (env_of no_fault compiler_silent)
            (Some (''gear.scad'', ''module g(){}'')) w0) = Returned (UploadOk ''gear.scad'')
   \<and> lookup (fs (snd (UploadLibrary_post (env_of no_fault compiler_silent)
                       (Some (''gear.scad'', ''module g(){}'')) w0)))
        [''app'', ''libraries'', ''gear.scad''] = Some (File ''module g(){}'')"
proof -
  let ?e = "env_of no_fault compiler_silent"
  have n: "''notes.txt'' \<noteq> [] \<and> \<not> endswith ''notes.txt'' ''.scad''"
    by (simp add: endswith_def)
  have u: "''util.scad'' \<noteq> [] \<and> endswith ''util.scad'' ''.scad''
           \<and> realpath (fs w0) (join LIBRARIES_DIR ''util.scad'')
               = Some [''app'', ''libraries'', ''util.scad'']
           \<and> \<not> is_dir (lookup (fs w0) [''app'', ''libraries'', ''util.scad''])
           \<and> os_fault ?e (SysOpenW (join LIBRARIES_DIR ''util.scad'')) = None
           \<and> os_fault ?e (SysWrite (join LIBRARIES_DIR ''util.scad'')) = None"
    by (simp add: endswith_def w0_sel upload0_paths env_of_sel no_fault_def)
  have g: "''gear.scad'' \<noteq> [] \<and> endswith ''gear.scad'' ''.scad''
           \<and> realpath (fs w0) (join LIBRARIES_DIR ''gear.scad'')
               = Some [''app'', ''libraries'', ''gear.scad'']
           \<and> \<not> is_dir (lookup (fs w0) [''app'', ''libraries'', ''gear.scad''])
           \<and> os_fault ?e (SysOpenW (join LIBRARIES_DIR ''gear.scad'')) = None
           \<and> os_fault ?e (SysWrite (join LIBRARIES_DIR ''gear.scad'')) = None"
    by (simp add: endswith_def w0_sel upload0_paths env_of_sel no_fault_def)
  note r1 = register_library [of "Some (''notes.txt'', ''x'')" "''notes.txt''" "''x''" ?e w0,
      OF refl, THEN conjunct2, THEN conjunct1]
  note r2 = register_library [of "Some (''util.scad'', ''module u(){cube(2);}'')" "''util.scad''"
      "''module u(){cube(2);}''" ?e w0, OF refl, THEN conjunct2, THEN conjunct2, THEN conjunct1,
      rule_format, of "[''app'', ''libraries'', ''util.scad'']"]
  note r3 = register_library [of "Some (''gear.scad'', ''module g(){}'')" "''gear.scad''"
      "''module g(){}''" ?e w0, OF refl, THEN conjunct2, THEN conjunct2, THEN conjunct1,
      rule_format, of "[''app'', ''libraries'', ''gear.scad'']"]
  from r1 n have a: "UploadLibrary_post ?e (Some (''notes.txt'', ''x'')) w0
                       = (Returned OnlyScadAllowed, w0)"
    by simp
  from r2 u obtain t where
    "UploadLibrary_post ?e (Some (''util.scad'', ''module u(){cube(2);}'')) w0
       = (Returned (UploadOk ''util.scad''), w0\<lparr>fs := t\<rparr>)"
    "lookup t [''app'', ''libraries'', ''util.scad''] = Some (File ''module u(){cube(2);}'')"
    by blast
  then have b: "fst (UploadLibrary_post ?e (Some (''util.scad'', ''module u(){cube(2);}'')) w0)
                  = Returned (UploadOk ''util.scad'')
                \<and> lookup (fs (snd (UploadLibrary_post ?e
                                     (Some (''util.scad'', ''module u(){cube(2);}'')) w0)))
                    [''app'', ''libraries'', ''util.scad''] = Some (File ''module u(){cube(2);}'')"
    by simp
  from r3 g obtain t where
    "UploadLibrary_post ?e (Some (''gear.scad'', ''module g(){}'')) w0
       = (Returned (UploadOk ''gear.scad''), w0\<lparr>fs := t\<rparr>)"
    "lookup t [''app'', ''libraries'', ''gear.scad''] = Some (File ''module g(){}'')"
    by blast
  then have c: "fst (UploadLibrary_post ?e (Some (''gear.scad'', ''module g(){}'')) w0)
                  = Returned (UploadOk ''gear.scad'')
                \<and> lookup (fs (snd (UploadLibrary_post ?e
                                     (Some (''gear.scad'', ''module g(){}'')) w0)))
                    [''app'', ''libraries'', ''gear.scad''] = Some (File ''module g(){}'')"
    by simp
  from a b c show ?thesis by simp
qed

text \<open>
  C7 as stated fails: the upload named \<^verbatim>\<open>/tmp/x.scad\<close> passes the
  checks and is written to \<^verbatim>\<open>/tmp/x.scad\<close>, outside of the library
  directory; no entry of the pool holds it.
\<close>

theorem register_library_counterexample:
  "endswith ''/tmp/x.scad'' ''.scad''
   \<and> join LIBRARIES_DIR ''/tmp/x.scad'' = ''/tmp/x.scad''
   \<and> realpath fs0 LIBRARIES_DIR = Some [''app'', ''libraries'']
   \<and> UploadLibrary_post (env_of no_fault compiler_silent) (Some (''/tmp/x.scad'', ''x'')) w0
       = (Returned (UploadOk ''/tmp/x.scad''),
          w0\<lparr>fs := Dir [(''tmp'', Dir [(''openscad_models'', Dir []), (''x.scad'', File ''x'')]),
                         (''app'', Dir [(''libraries'',
                                         Dir [(''util.scad'', File ''module u(){}'')])])]\<rparr>)
   \<and> \<not> prefix [''app'', ''libraries''] [''tmp'', ''x.scad'']"
  by (simp add: eval_defs)

text \<open>
  C8, as the code has it, for one upload at a time.  The upload over an
  existing library opens the final path itself, which empties the file, and
  writes the content into it; there is no temporary file and no rename.
  When the write goes through, a read of the path after the request gives
  the new content.  When the operating system refuses the write, the reply
  is the upload error and a read of the path after the request gives the
  empty text: neither the payload before nor the uploaded one.
\<close>

theorem upload_in_place:
  assumes "file = Some (name, content)"
    and "name \<noteq> []" and "endswith name ''.scad''"
    and "realpath (fs w) (join LIBRARIES_DIR name) = Some cs"
    and "lookup (fs w) cs = Some (File old)"
    and "os_fault e (SysOpenW (join LIBRARIES_DIR name)) = None"
    and "os_fault e' (SysRead (join LIBRARIES_DIR name)) = None"
  shows "(os_fault e (SysWrite (join LIBRARIES_DIR name)) = None \<longrightarrow>
            (\<exists>t. UploadLibrary_post e file w = (Returned (UploadOk name), w\<lparr>fs := t\<rparr>)
                 \<and> read_file e' t (join LIBRARIES_DIR name) = Inr content))
       \<and> (\<forall>m. os_fault e (SysWrite (join LIBRARIES_DIR name)) = Some m \<longrightarrow>
            (\<exists>t. UploadLibrary_post e file w
                   = (Returned (UploadError (str_exn e (OSError m))), w\<lparr>fs := t\<rparr>)
                 \<and> read_file e' t (join LIBRARIES_DIR name) = Inr []))"
proof -
  have nd: "\<not> is_dir (lookup (fs w) cs)" using assms(5) by simp
  have a: "os_fault e (SysWrite (join LIBRARIES_DIR name)) = None \<longrightarrow>
            (\<exists>t. UploadLibrary_post e file w = (Returned (UploadOk name), w\<lparr>fs := t\<rparr>)
                 \<and> read_file e' t (join LIBRARIES_DIR name) = Inr content)"
  proof
    assume n: "os_fault e (SysWrite (join LIBRARIES_DIR name)) = None"
    from write_file_ok [OF assms(4) nd assms(6) n, of content] obtain t where
      t: "write_file e (fs w) (join LIBRARIES_DIR name) content = (Inr (), t)"
      "realpath t (join LIBRARIES_DIR name) = Some cs" "lookup t cs = Some (File content)"
      by blast
    then have "read_file e' t (join LIBRARIES_DIR name) = Inr content"
      using assms(7) by (simp add: read_file_def guard_def stat_def)
    then show "\<exists>t. UploadLibrary_post e file w = (Returned (UploadOk name), w\<lparr>fs := t\<rparr>)
                 \<and> read_file e' t (join LIBRARIES_DIR name) = Inr content"
      using assms(1-3) t(1) by (intro exI [of _ t]) (simp add: UploadLibrary_post_def)
  qed
  have b: "\<forall>m. os_fault e (SysWrite (join LIBRARIES_DIR name)) = Some m \<longrightarrow>
            (\<exists>t. UploadLibrary_post e file w
                   = (Returned (UploadError (str_exn e (OSError m))), w\<lparr>fs := t\<rparr>)
                 \<and> read_file e' t (join LIBRARIES_DIR name) = Inr [])"
  proof (intro allI impI)
    fix m
    assume n: "os_fault e (SysWrite (join LIBRARIES_DIR name)) = Some m"
    from write_file_truncates [OF assms(4) nd assms(6) n, of content] obtain t where
      t: "write_file e (fs w) (join LIBRARIES_DIR name) content = (Inl (OSError m), t)"
      "realpath t (join LIBRARIES_DIR name) = Some cs" "lookup t cs = Some (File [])"
      by blast
    then have "read_file e' t (join LIBRARIES_DIR name) = Inr []"
      using assms(7) by (simp add: read_file_def guard_def stat_def)
    then show "\<exists>t. UploadLibrary_post e file w
                   = (Returned (UploadError (str_exn e (OSError m))), w\<lparr>fs := t\<rparr>)
                 \<and> read_file e' t (join LIBRARIES_DIR name) = Inr []"
      using assms(1-3) t(1) by (intro exI [of _ t]) (simp add: UploadLibrary_post_def)
  qed
  from a b show ?thesis by blast
qed

text \<open>
  C8, at an upload over the library \<^verbatim>\<open>util.scad\<close> that goes through.
\<close>

theorem upload_in_place_witness:
  "fst (UploadLibrary_post (env_of no_fault compiler_silent)
          (Some (''util.scad'', ''module u(){cube(2);}'')) w0) = Returned (UploadOk ''util.scad'')
   \<and> read_file (env_of no_fault compiler_silent)
        (fs (snd (UploadLibrary_post (env_of no_fault compiler_silent)
                    (Some (''util.scad'', ''module u(){cube(2);}'')) w0)))
        ''/app/libraries/util.scad'' = Inr ''module u(){cube(2);}''"
proof -
  let ?e = "env_of no_fault compiler_silent"
  have h: "''util.scad'' \<noteq> []" "endswith ''util.scad'' ''.scad''"
    "realpath (fs w0) (join LIBRARIES_DIR ''util.scad'') = Some [''app'', ''libraries'', ''util.scad'']"
    "lookup (fs w0) [''app'', ''libraries'', ''util.scad''] = Some (File ''module u(){}'')"
    "os_fault ?e (SysOpenW (join LIBRARIES_DIR ''util.scad'')) = None"
    "os_fault ?e (SysRead (join LIBRARIES_DIR ''util.scad'')) = None"
    "os_fault ?e (SysWrite (join LIBRARIES_DIR ''util.scad'')) = None"
    by (simp_all add: endswith_def w0_sel upload0_paths env_of_sel no_fault_def)
  from upload_in_place [OF refl h(1-6), THEN conjunct1, rule_format, OF h(7),
      of "''module u(){cube(2);}''"]
  obtain t where
    "UploadLibrary_post ?e (Some (''util.scad'', ''module u(){cube(2);}'')) w0
       = (Returned (UploadOk ''util.scad''), w0\<lparr>fs := t\<rparr>)"
    "read_file ?e t (join LIBRARIES_DIR ''util.scad'') = Inr ''module u(){cube(2);}''"
    by blast
  then show ?thesis by (simp add: upload0_paths)
qed

text \<open>
  C8 as stated fails: the library \<^verbatim>\<open>util.scad\<close> holds a payload; an
  upload over it whose write is refused leaves the file empty, and the
  read after it returns the empty text, which was never published.
\<close>

theorem upload_in_place_counterexample:
  "read_file (env_of no_fault compiler_silent) (fs w0) ''/app/libraries/util.scad''
     = Inr ''module u(){}''
   \<and> UploadLibrary_post (env_of (write_full ''/app/libraries/util.scad'') compiler_silent)
        (Some (''util.scad'', ''module u(){cube(2);}'')) w0
     = (Returned (UploadError ''[Errno 28] No space left on device''),
        w0\<lparr>fs := Dir [(''tmp'', Dir [(''openscad_models'', Dir [])]),
                       (''app'', Dir [(''libraries'', Dir [(''util.scad'', File [])])])]\<rparr>)
   \<and> read_file (env_of no_fault compiler_silent)
        (Dir [(''tmp'', Dir [(''openscad_models'', Dir [])]),
              (''app'', Dir [(''libraries'', Dir [(''util.scad'', File [])])])])
        ''/app/libraries/util.scad'' = Inr []"
  by (simp add: eval_defs)

end
